theory Spec2Isabelle
  imports Complex_Main "HOL-Library.AList"
begin

section \<open>Python values used by the loader and the projection code\<close>

text \<open>
  Strings are lists of characters and every character classification below is the
  ASCII part of the corresponding Python \<^verbatim>\<open>str\<close> method.  A Python \<^verbatim>\<open>dict\<close> is an
  association list in insertion order: \<^const>\<open>map_of\<close> reads it and
  \<^const>\<open>AList.update\<close> is the assignment \<^verbatim>\<open>d[k] = v\<close> (in place for a key that
  is present, appended at the end otherwise).  A Python \<^verbatim>\<open>float\<close> is the real number it
  denotes.  The goalie projection computes as the program does, every operation rounded to
  the nearest binary64 number (\<open>round_double\<close> below); the skater projection and the
  standings are stated in exact arithmetic.
\<close>

type_synonym ('k, 'v) dict = "('k \<times> 'v) list"

definition dict_get :: "('k, 'v) dict \<Rightarrow> 'k \<Rightarrow> 'v \<Rightarrow> 'v" where
  \<comment> \<open>\<^verbatim>\<open>d.get(k, default)\<close>\<close>
  "dict_get d k dflt = (case map_of d k of None \<Rightarrow> dflt | Some v \<Rightarrow> v)"

definition dict_keys :: "('k, 'v) dict \<Rightarrow> 'k list" where
  \<comment> \<open>\<^verbatim>\<open>list(d.keys())\<close>\<close>
  "dict_keys d = map fst d"

definition dict_values_sum :: "('k, int) dict \<Rightarrow> int" where
  \<comment> \<open>\<^verbatim>\<open>sum(d.values())\<close>\<close>
  "dict_values_sum d = sum_list (map snd d)"

datatype py_error = ZeroDivisionError | StopIteration

definition truediv :: "real \<Rightarrow> real \<Rightarrow> py_error + real" where
  \<comment> \<open>\<^verbatim>\<open>a / b\<close>, which raises on a zero divisor\<close>
  "truediv a b = (if b = 0 then Inl ZeroDivisionError else Inr (a / b))"

definition and_then :: "'e + 'a \<Rightarrow> ('a \<Rightarrow> 'e + 'b) \<Rightarrow> 'e + 'b" where
  \<comment> \<open>sequencing: a raised error skips the rest of the function body\<close>
  "and_then r f = (case r of Inl e \<Rightarrow> Inl e | Inr v \<Rightarrow> f v)"

subsection \<open>Binary64 arithmetic\<close>

text \<open>
  A finite binary64 number has 53 significant bits and an exponent of at least \<open>-1022\<close>; an
  operation returns the representable number nearest to the exact result, the one with the
  even significand when two are equally near.  Results of magnitude \<open>2 ^ 1024\<close> and more
  (Python's \<^verbatim>\<open>OverflowError\<close> or \<^verbatim>\<open>inf\<close>) are outside this model.
\<close>

fun floor_log2 :: "nat \<Rightarrow> nat" where
  \<comment> \<open>the position of the leading bit\<close>
  "floor_log2 n = (if n < 2 then 0 else Suc (floor_log2 (n div 2)))"

declare floor_log2.simps [simp del]

definition pow2 :: "int \<Rightarrow> real" where
  "pow2 k = (if k \<ge> 0 then 2 ^ nat k else 1 / 2 ^ nat (- k))"

definition binary_exponent :: "real \<Rightarrow> int" where
  \<comment> \<open>for \<open>a > 0\<close>, the \<open>e\<close> with \<open>2 ^ e \<le> a < 2 ^ (e + 1)\<close>\<close>
  "binary_exponent a =
     (if a \<ge> 1 then int (floor_log2 (nat \<lfloor>a\<rfloor>))
      else let c = int (floor_log2 (nat \<lfloor>1 / a\<rfloor>)) in
           if a = pow2 (- c) then - c else - (c + 1))"

definition round_half_even :: "real \<Rightarrow> int" where
  "round_half_even q =
     (let f = \<lfloor>q\<rfloor>; d = q - of_int f in
      if d < 1 / 2 then f else if d > 1 / 2 then f + 1 else if even f then f else f + 1)"

definition round_double :: "real \<Rightarrow> real" where
  \<comment> \<open>the binary64 number nearest to \<open>x\<close>, ties to even; subnormal below \<open>2 ^ -1022\<close>\<close>
  "round_double x =
     (if x = 0 then 0
      else let a = \<bar>x\<bar>;
               e = max (binary_exponent a) (- 1022);
               ulp = pow2 (e - 52)
           in sgn x * of_int (round_half_even (a / ulp)) * ulp)"

definition float_of_int :: "int \<Rightarrow> real" where
  \<comment> \<open>the conversion of an \<^verbatim>\<open>int\<close> operand of a mixed operation\<close>
  "float_of_int n = round_double (real_of_int n)"

definition int_truediv :: "int \<Rightarrow> int \<Rightarrow> py_error + real" where
  \<comment> \<open>\<^verbatim>\<open>a / b\<close> of two \<^verbatim>\<open>int\<close>s: the correctly rounded quotient, an error on a zero divisor\<close>
  "int_truediv a b =
     (if b = 0 then Inl ZeroDivisionError else Inr (round_double (real_of_int a / real_of_int b)))"

definition float_mul :: "real \<Rightarrow> real \<Rightarrow> real" where
  "float_mul a b = round_double (a * b)"

definition float_add :: "real \<Rightarrow> real \<Rightarrow> real" where
  "float_add a b = round_double (a + b)"

subsection \<open>Strings\<close>

definition ascii_space :: "char list" where
  "ascii_space = [CHR 0x20, CHR 0x09, CHR 0x0A, CHR 0x0B, CHR 0x0C, CHR 0x0D,
                  CHR 0x1C, CHR 0x1D, CHR 0x1E, CHR 0x1F]"

definition is_space :: "char \<Rightarrow> bool" where
  "is_space c = (c \<in> set ascii_space)"

definition is_digit :: "char \<Rightarrow> bool" where
  "is_digit c = (c \<in> set ''0123456789'')"

definition is_upper :: "char \<Rightarrow> bool" where
  "is_upper c = (c \<in> set ''ABCDEFGHIJKLMNOPQRSTUVWXYZ'')"

definition is_lower :: "char \<Rightarrow> bool" where
  "is_lower c = (c \<in> set ''abcdefghijklmnopqrstuvwxyz'')"

definition py_strip :: "string \<Rightarrow> string" where
  \<comment> \<open>\<^verbatim>\<open>s.strip()\<close>\<close>
  "py_strip s = rev (dropWhile is_space (rev (dropWhile is_space s)))"

fun split_from :: "string \<Rightarrow> string \<Rightarrow> string list" where
  \<comment> \<open>the scan of \<^verbatim>\<open>s.split()\<close>; the first argument is the token being read, reversed\<close>
  "split_from cur [] = (if cur = [] then [] else [rev cur])"
| "split_from cur (c # cs) =
     (if is_space c then (if cur = [] then split_from [] cs else rev cur # split_from [] cs)
      else split_from (c # cur) cs)"

definition py_split :: "string \<Rightarrow> string list" where
  \<comment> \<open>\<^verbatim>\<open>s.split()\<close>: the maximal runs of non-whitespace characters\<close>
  "py_split s = split_from [] s"

fun py_join :: "string \<Rightarrow> string list \<Rightarrow> string" where
  \<comment> \<open>\<^verbatim>\<open>sep.join(parts)\<close>\<close>
  "py_join sep [] = []"
| "py_join sep [x] = x"
| "py_join sep (x # y # ys) = x @ sep @ py_join sep (y # ys)"

definition isdigit :: "string \<Rightarrow> bool" where
  \<comment> \<open>\<^verbatim>\<open>s.isdigit()\<close>: non-empty and digits only\<close>
  "isdigit s = (s \<noteq> [] \<and> list_all is_digit s)"

definition isalpha :: "string \<Rightarrow> bool" where
  \<comment> \<open>\<^verbatim>\<open>s.isalpha()\<close>: non-empty and letters only\<close>
  "isalpha s = (s \<noteq> [] \<and> list_all (\<lambda>c. is_upper c \<or> is_lower c) s)"

definition isupper :: "string \<Rightarrow> bool" where
  \<comment> \<open>\<^verbatim>\<open>s.isupper()\<close>: at least one cased character and no lower-case one\<close>
  "isupper s = (list_ex is_upper s \<and> \<not> list_ex is_lower s)"

section \<open>data\_loader.py\<close>

subsection \<open>parse\_player\_name\<close>

definition parse_player_name :: "string \<Rightarrow> string \<times> string" where
  "parse_player_name raw =
     (let parts = py_split (py_strip raw) in
      if length parts < 2 then ('''', raw)
      else
        let position = hd parts;
            suffix = last parts;
            is_suffix = (isdigit suffix \<or> (length suffix = 1 \<and> isalpha suffix \<and> isupper suffix));
            name_parts = (if is_suffix \<and> length parts > 2
                          then drop 1 (take (length parts - 1) parts) else drop 1 parts)
        in (position, py_join '' '' name_parts))"

subsection \<open>The schedule\<close>

definition NHL_TEAM_MAP :: "(string, string) dict" where
  "NHL_TEAM_MAP =
    [(''Anaheim Ducks'', ''ANA''), (''Boston Bruins'', ''BOS''), (''Buffalo Sabres'', ''BUF''),
     (''Calgary Flames'', ''CGY''), (''Carolina Hurricanes'', ''CAR''),
     (''Chicago Blackhawks'', ''CHI''), (''Colorado Avalanche'', ''COL''),
     (''Columbus Blue Jackets'', ''CBJ''), (''Dallas Stars'', ''DAL''),
     (''Detroit Red Wings'', ''DET''), (''Edmonton Oilers'', ''EDM''),
     (''Florida Panthers'', ''FLA''), (''Los Angeles Kings'', ''LAK''),
     (''Minnesota Wild'', ''MIN''), (''Montreal Canadiens'', ''MTL''),
     (''Nashville Predators'', ''NSH''), (''New Jersey Devils'', ''NJD''),
     (''New York Islanders'', ''NYI''), (''New York Rangers'', ''NYR''),
     (''Ottawa Senators'', ''OTT''), (''Philadelphia Flyers'', ''PHI''),
     (''Pittsburgh Penguins'', ''PIT''), (''San Jose Sharks'', ''SJS''),
     (''Seattle Kraken'', ''SEA''), (''St. Louis Blues'', ''STL''),
     (''Tampa Bay Lightning'', ''TBL''), (''Toronto Maple Leafs'', ''TOR''),
     (''Utah Mammoth'', ''UTA''), (''Vancouver Canucks'', ''VAN''),
     (''Vegas Golden Knights'', ''VGK''), (''Washington Capitals'', ''WSH''),
     (''Winnipeg Jets'', ''WPG'')]"

definition digit_value :: "char \<Rightarrow> int" where
  "digit_value c = int (of_char c) - 48"

fun scan_digits :: "bool \<Rightarrow> int \<Rightarrow> string \<Rightarrow> int option" where
  \<comment> \<open>decimal digits, single underscores allowed between two digits; the flag says that
      the character just read was a digit\<close>
  "scan_digits after_digit acc [] = (if after_digit then Some acc else None)"
| "scan_digits after_digit acc (c # cs) =
     (if is_digit c then scan_digits True (10 * acc + digit_value c) cs
      else if c = CHR ''_'' \<and> after_digit then scan_digits False acc cs
      else None)"

definition py_int :: "string \<Rightarrow> int option" where
  \<comment> \<open>\<^verbatim>\<open>int(s)\<close>; \<^const>\<open>None\<close> is the \<^verbatim>\<open>ValueError\<close> that \<^verbatim>\<open>load_schedule\<close> catches\<close>
  "py_int s =
     (case py_strip s of
        [] \<Rightarrow> None
      | c # cs \<Rightarrow>
          if c = CHR ''-'' then map_option uminus (scan_digits False 0 cs)
          else if c = CHR ''+'' then scan_digits False 0 cs
          else scan_digits False 0 (c # cs))"

record goalie_tally =
  starts :: int
  wins :: int
  shutouts :: int

record schedule_data =
  team_completed :: "(string, int) dict"
  team_remaining :: "(string, int) dict"
  goalie_schedule_stats :: "(string, goalie_tally) dict"

definition truthy :: "string option \<Rightarrow> bool" where
  \<comment> \<open>the truth value of \<^verbatim>\<open>NHL_TEAM_MAP.get(...)\<close>: neither \<^verbatim>\<open>None\<close> nor the empty string\<close>
  "truthy a = (case a of None \<Rightarrow> False | Some s \<Rightarrow> s \<noteq> [])"

definition count_game :: "string option \<Rightarrow> (string, int) dict \<Rightarrow> (string, int) dict" where
  \<comment> \<open>\<^verbatim>\<open>if abbr: counts[abbr] = counts.get(abbr, 0) + 1\<close>\<close>
  "count_game abbr counts =
     (case abbr of
        None \<Rightarrow> counts
      | Some a \<Rightarrow> if truthy abbr then AList.update a (dict_get counts a 0 + 1) counts else counts)"

definition new_tally :: goalie_tally where
  "new_tally = \<lparr>starts = 0, wins = 0, shutouts = 0\<rparr>"

definition goalie_entry ::
  "string \<Rightarrow> (goalie_tally \<Rightarrow> goalie_tally) \<Rightarrow> (string, goalie_tally) dict \<Rightarrow> (string, goalie_tally) dict"
where
  \<comment> \<open>\<^verbatim>\<open>_goalie_entry(name)[field] += 1\<close>: the tally is created on first touch, then changed\<close>
  "goalie_entry name f goalie_stats = AList.update name (f (dict_get goalie_stats name new_tally)) goalie_stats"

definition add_start :: "goalie_tally \<Rightarrow> goalie_tally" where
  "add_start t = t\<lparr>starts := starts t + 1\<rparr>"

definition add_win :: "goalie_tally \<Rightarrow> goalie_tally" where
  "add_win t = t\<lparr>wins := wins t + 1\<rparr>"

definition add_shutout :: "goalie_tally \<Rightarrow> goalie_tally" where
  "add_shutout t = t\<lparr>shutouts := shutouts t + 1\<rparr>"

definition tally_game ::
  "string \<Rightarrow> string \<Rightarrow> int \<Rightarrow> int \<Rightarrow> (string, goalie_tally) dict \<Rightarrow> (string, goalie_tally) dict"
where
  \<comment> \<open>the goalie part of one completed row whose scores parsed\<close>
  "tally_game visitor_goalie home_goalie v_score h_score gs0 =
     (let gs1 = (if visitor_goalie \<noteq> [] then goalie_entry visitor_goalie add_start gs0 else gs0);
          gs2 = (if home_goalie \<noteq> [] then goalie_entry home_goalie add_start gs1 else gs1);
          gs3 = (if visitor_goalie \<noteq> [] \<and> home_goalie \<noteq> []
                 then (if v_score > h_score then goalie_entry visitor_goalie add_win gs2
                       else goalie_entry home_goalie add_win gs2)
                 else gs2);
          gs4 = (if home_goalie \<noteq> [] \<and> v_score = 0 then goalie_entry home_goalie add_shutout gs3 else gs3)
      in if visitor_goalie \<noteq> [] \<and> h_score = 0 then goalie_entry visitor_goalie add_shutout gs4 else gs4)"

definition process_row :: "schedule_data \<Rightarrow> string list \<Rightarrow> schedule_data" where
  \<comment> \<open>the body of the loop over the rows of the file\<close>
  "process_row st row =
     (if length row < 8 then st
      else
        let visitor_full = py_strip (row ! 3);
            home_full = py_strip (row ! 5);
            status = py_strip (row ! 7);
            visitor_abbr = map_of NHL_TEAM_MAP visitor_full;
            home_abbr = map_of NHL_TEAM_MAP home_full
        in if status = ''Scheduled''
           then st\<lparr>team_remaining := count_game home_abbr (count_game visitor_abbr (team_remaining st))\<rparr>
           else
             let st1 = st\<lparr>team_completed := count_game home_abbr (count_game visitor_abbr (team_completed st))\<rparr>;
                 visitor_goalie = (if length row > 8 then py_strip (row ! 8) else '''');
                 home_goalie = (if length row > 9 then py_strip (row ! 9) else '''')
             in case py_int (py_strip (row ! 4)) of
                  None \<Rightarrow> st1
                | Some v_score \<Rightarrow>
                    (case py_int (py_strip (row ! 6)) of
                       None \<Rightarrow> st1
                     | Some h_score \<Rightarrow>
                         st1\<lparr>goalie_schedule_stats :=
                               tally_game visitor_goalie home_goalie v_score h_score
                                 (goalie_schedule_stats st1)\<rparr>))"

definition no_games :: schedule_data where
  "no_games = \<lparr>team_completed = [], team_remaining = [], goalie_schedule_stats = []\<rparr>"

fun load_schedule :: "string list list \<Rightarrow> py_error + schedule_data" where
  \<comment> \<open>the argument is what \<^verbatim>\<open>csv.reader\<close> yields, header row first; \<^verbatim>\<open>next(reader)\<close>
      raises on a file without any row\<close>
  "load_schedule [] = Inl StopIteration"
| "load_schedule (header # rows) = Inr (foldl process_row no_games rows)"

subsection \<open>Name matching\<close>

record roster_player =
  raw :: string
  name :: string
  position :: string
  fchl_team :: string

record skater_record =
  sk_name :: string
  sk_nhl_team :: string
  games_played :: real
  goals :: real
  primary_assists :: real
  secondary_assists :: real

record goalie_record =
  gl_name :: string
  gl_nhl_team :: string
  gl_games_played :: real

type_synonym extract_one = "string \<Rightarrow> string list \<Rightarrow> (string \<times> int) option"

definition fuzzy_match_name :: "extract_one \<Rightarrow> string \<Rightarrow> string list \<Rightarrow> int \<Rightarrow> string option" where
  \<comment> \<open>the first argument stands for \<^verbatim>\<open>extractOne\<close> of the library thefuzz with the scorer
      \<^verbatim>\<open>token_sort_ratio\<close>, which is not part of the repository\<close>
  "fuzzy_match_name extractOne query candidates score_cutoff =
     (if candidates = [] then None
      else case extractOne query candidates of
             None \<Rightarrow> None
           | Some (matched, score) \<Rightarrow> if score \<ge> score_cutoff then Some matched else None)"

definition in_pool ::
  "roster_player \<Rightarrow> (string, skater_record) dict \<Rightarrow> (string, goalie_record) dict \<Rightarrow> bool"
where
  \<comment> \<open>\<^verbatim>\<open>name in pool\<close>, the pool chosen by the position\<close>
  "in_pool player skater_stats goalie_stats =
     (if position player = ''G'' then map_of goalie_stats (name player) \<noteq> None
      else map_of skater_stats (name player) \<noteq> None)"

definition match_player ::
  "extract_one \<Rightarrow> (string, skater_record) dict \<Rightarrow> (string, goalie_record) dict \<Rightarrow>
   (string, string option) dict \<Rightarrow> roster_player \<Rightarrow> (string, string option) dict"
where
  \<comment> \<open>the body of the loop over the roster\<close>
  "match_player extractOne skater_stats goalie_stats lookup player =
     (if map_of lookup (name player) \<noteq> None then lookup
      else
        let candidates = (if position player = ''G'' then dict_keys goalie_stats
                          else dict_keys skater_stats)
        in if in_pool player skater_stats goalie_stats
           then AList.update (name player) (Some (name player)) lookup
           else AList.update (name player)
                  (fuzzy_match_name extractOne (name player) candidates 80) lookup)"

definition build_player_lookup ::
  "extract_one \<Rightarrow> roster_player list \<Rightarrow> (string, skater_record) dict \<Rightarrow>
   (string, goalie_record) dict \<Rightarrow> (string, string option) dict"
where
  "build_player_lookup extractOne fchl_roster skater_stats goalie_stats =
     foldl (match_player extractOne skater_stats goalie_stats) [] fchl_roster"

section \<open>projections.py\<close>

definition GOAL_PTS :: int where "GOAL_PTS = 1"
definition ASSIST_PTS :: int where "ASSIST_PTS = 1"
definition WIN_PTS :: int where "WIN_PTS = 2"
definition SHUTOUT_PTS :: int where "SHUTOUT_PTS = 3"

record player_projection =
  pp_name :: string
  pp_position :: string
  pp_fchl_team :: string
  nhl_team :: string
  proj_goals :: real
  proj_assists :: real
  proj_wins :: real
  proj_shutouts :: real
  proj_pts :: real
  found_in_stats :: bool

definition base_projection :: "roster_player \<Rightarrow> player_projection" where
  \<comment> \<open>the dict \<^verbatim>\<open>base\<close> that both projection functions start from\<close>
  "base_projection player =
     \<lparr>pp_name = name player, pp_position = position player, pp_fchl_team = fchl_team player,
      nhl_team = '''', proj_goals = 0, proj_assists = 0, proj_wins = 0, proj_shutouts = 0,
      proj_pts = 0, found_in_stats = False\<rparr>"

definition project_skater ::
  "roster_player \<Rightarrow> string option \<Rightarrow> (string, skater_record) dict \<Rightarrow> (string, int) dict \<Rightarrow>
   py_error + player_projection"
where
  "project_skater player stats_key skater_stats team_remaining' =
     (let base = base_projection player in
      case stats_key of
        None \<Rightarrow> Inr base
      | Some key \<Rightarrow>
          (case map_of skater_stats key of
             None \<Rightarrow> Inr base
           | Some s \<Rightarrow>
               let gp = games_played s in
               if gp \<le> 0 then Inr (base\<lparr>nhl_team := sk_nhl_team s, found_in_stats := True\<rparr>)
               else
                 let remaining = real_of_int (dict_get team_remaining' (sk_nhl_team s) 0) in
                 and_then (truediv (goals s) gp) (\<lambda>gpg.
                 and_then (truediv (primary_assists s + secondary_assists s) gp) (\<lambda>apg.
                   let proj_goals' = gpg * remaining;
                       proj_assists' = apg * remaining;
                       proj_pts' = (proj_goals' * real_of_int GOAL_PTS)
                                 + (proj_assists' * real_of_int ASSIST_PTS)
                   in Inr (base\<lparr>nhl_team := sk_nhl_team s, proj_goals := proj_goals',
                                 proj_assists := proj_assists', proj_pts := proj_pts',
                                 found_in_stats := True\<rparr>)))))"

text \<open>
  A tally of the schedule is the three-key dict that \<^const>\<open>goalie_entry\<close> builds, which is
  never empty and hence true in a Python condition: in
  \<^verbatim>\<open>goalie_schedule_stats.get(stats_key) or goalie_schedule_stats.get(player["name"], {})\<close>
  the second operand is taken exactly when the first lookup finds nothing.  \<^const>\<open>None\<close>
  below is the empty dict of the default, every field of which reads as 0.
\<close>

definition schedule_tally ::
  "(string, goalie_tally) dict \<Rightarrow> string \<Rightarrow> string \<Rightarrow> goalie_tally option"
where
  "schedule_tally goalie_schedule_stats' key player_name =
     (case map_of goalie_schedule_stats' key of
        Some t \<Rightarrow> Some t
      | None \<Rightarrow> map_of goalie_schedule_stats' player_name)"

definition tally_get :: "goalie_tally option \<Rightarrow> (goalie_tally \<Rightarrow> int) \<Rightarrow> int" where
  \<comment> \<open>\<^verbatim>\<open>sched.get(field, 0)\<close>\<close>
  "tally_get sched field = (case sched of None \<Rightarrow> 0 | Some t \<Rightarrow> field t)"

definition project_goalie ::
  "roster_player \<Rightarrow> string option \<Rightarrow> (string, goalie_record) dict \<Rightarrow>
   (string, goalie_tally) dict \<Rightarrow> (string, int) dict \<Rightarrow> (string, int) dict \<Rightarrow>
   py_error + player_projection"
where
  "project_goalie player stats_key goalie_stats goalie_schedule_stats' team_completed' team_remaining' =
     (let base = base_projection player in
      case stats_key of
        None \<Rightarrow> Inr base
      | Some key \<Rightarrow>
          (case map_of goalie_stats key of
             None \<Rightarrow> Inr base
           | Some g \<Rightarrow>
               let nhl_team' = gl_nhl_team g;
                   sched = schedule_tally goalie_schedule_stats' key (name player);
                   starts' = tally_get sched starts;
                   wins' = tally_get sched wins;
                   shutouts' = tally_get sched shutouts;
                   team_comp = dict_get team_completed' nhl_team' 0;
                   team_rem = dict_get team_remaining' nhl_team' 0;
                   base' = base\<lparr>nhl_team := nhl_team', found_in_stats := True\<rparr>
               in if starts' = 0 \<or> team_comp = 0 then Inr base'
                  else
                    and_then (int_truediv wins' starts') (\<lambda>win_rate.
                    and_then (int_truediv shutouts' starts') (\<lambda>shutout_rate.
                    and_then (int_truediv starts' team_comp) (\<lambda>share.
                      let remaining_starts = float_mul share (float_of_int team_rem);
                          proj_wins' = float_mul win_rate remaining_starts;
                          proj_shutouts' = float_mul shutout_rate remaining_starts;
                          proj_pts' = float_add (float_mul proj_wins' (float_of_int WIN_PTS))
                                        (float_mul proj_shutouts' (float_of_int SHUTOUT_PTS))
                      in Inr (base'\<lparr>proj_wins := proj_wins', proj_shutouts := proj_shutouts',
                                     proj_pts := proj_pts'\<rparr>))))))"

definition project_player ::
  "(string, string option) dict \<Rightarrow> (string, skater_record) dict \<Rightarrow>
   (string, goalie_record) dict \<Rightarrow> schedule_data \<Rightarrow> roster_player \<Rightarrow> py_error + player_projection"
where
  \<comment> \<open>the body of the loop of \<^verbatim>\<open>project_all_players\<close>\<close>
  "project_player player_lookup skater_stats goalie_stats schedule player =
     (let stats_key = dict_get player_lookup (name player) None in
      if position player = ''G''
      then project_goalie player stats_key goalie_stats (goalie_schedule_stats schedule)
             (team_completed schedule) (team_remaining schedule)
      else project_skater player stats_key skater_stats (team_remaining schedule))"

fun project_all_players ::
  "roster_player list \<Rightarrow> (string, string option) dict \<Rightarrow> (string, skater_record) dict \<Rightarrow>
   (string, goalie_record) dict \<Rightarrow> schedule_data \<Rightarrow> py_error + player_projection list"
where
  "project_all_players [] player_lookup skater_stats goalie_stats schedule = Inr []"
| "project_all_players (player # rest) player_lookup skater_stats goalie_stats schedule =
     and_then (project_player player_lookup skater_stats goalie_stats schedule player) (\<lambda>proj.
     and_then (project_all_players rest player_lookup skater_stats goalie_stats schedule) (\<lambda>results.
       Inr (proj # results)))"

subsection \<open>Standings\<close>







section \<open>Notions of the specification and inputs of the concrete evaluations\<close>

text \<open>
  The definitions of this section are not part of the program: they name what the
  specification talks about (a row with a completed status, a recognized team, the wins
  tallied for a goalie, the parsing rule in the specification's words) and fix the concrete
  rosters, statistics and schedule rows on which the theorems are evaluated.
\<close>

definition no_candidate :: extract_one where
  \<comment> \<open>a scorer that proposes nothing, standing in for thefuzz where a run needs one\<close>
  "no_candidate query candidates = None"

definition skater_mcdavid :: roster_player where
  "skater_mcdavid = \<lparr>raw = ''F Connor McDavid 97'', name = ''Connor McDavid'', position = ''F'',
                      fchl_team = ''BOT''\<rparr>"

definition stats_mcdavid :: skater_record where
  "stats_mcdavid = \<lparr>sk_name = ''Connor McDavid'', sk_nhl_team = ''EDM'', games_played = 20,
                     goals = 10, primary_assists = 5, secondary_assists = 3\<rparr>"

definition stats_benched :: skater_record where
  "stats_benched = \<lparr>sk_name = ''Connor McDavid'', sk_nhl_team = ''EDM'', games_played = 0,
                     goals = 0, primary_assists = 0, secondary_assists = 0\<rparr>"

definition goalie_skinner :: roster_player where
  "goalie_skinner = \<lparr>raw = ''G Stuart Skinner'', name = ''Stuart Skinner'', position = ''G'',
                      fchl_team = ''GVR''\<rparr>"

definition stats_skinner :: goalie_record where
  "stats_skinner = \<lparr>gl_name = ''Stuart Skinner'', gl_nhl_team = ''EDM'', gl_games_played = 20\<rparr>"

definition tally_skinner :: goalie_tally where
  "tally_skinner = \<lparr>starts = 20, wins = 12, shutouts = 2\<rparr>"

definition all_zero :: "player_projection \<Rightarrow> bool" where
  "all_zero r = (proj_goals r = 0 \<and> proj_assists r = 0 \<and> proj_wins r = 0 \<and>
                 proj_shutouts r = 0 \<and> proj_pts r = 0)"

definition matched_in_stats ::
  "roster_player \<Rightarrow> (string, string option) dict \<Rightarrow> (string, skater_record) dict \<Rightarrow>
   (string, goalie_record) dict \<Rightarrow> bool"
where
  \<comment> \<open>the lookup gives the player's name a key, and the collection consulted for the player's
      position has that key\<close>
  "matched_in_stats player player_lookup skater_stats goalie_stats =
     (case dict_get player_lookup (name player) None of
        None \<Rightarrow> False
      | Some key \<Rightarrow> if position player = ''G'' then map_of goalie_stats key \<noteq> None
                    else map_of skater_stats key \<noteq> None)"

definition example_lookup :: "(string, string option) dict" where
  "example_lookup = [(''Connor McDavid'', Some ''Connor McDavid''),
                     (''Stuart Skinner'', Some ''Stuart Skinner'')]"

definition example_schedule :: schedule_data where
  "example_schedule = \<lparr>team_completed = [(''EDM'', 25)], team_remaining = [(''EDM'', 15)],
                        goalie_schedule_stats = [(''Stuart Skinner'', tally_skinner)]\<rparr>"

definition skater_aho :: roster_player where
  "skater_aho = \<lparr>raw = ''F Sebastian Aho'', name = ''Sebastian Aho'', position = ''F'',
                  fchl_team = ''LPT''\<rparr>"

definition goalie_aho :: roster_player where
  "goalie_aho = \<lparr>raw = ''G Sebastian Aho'', name = ''Sebastian Aho'', position = ''G'',
                  fchl_team = ''MAC''\<rparr>"

definition stats_aho :: skater_record where
  "stats_aho = \<lparr>sk_name = ''Sebastian Aho'', sk_nhl_team = ''CAR'', games_played = 30,
                 goals = 12, primary_assists = 10, secondary_assists = 8\<rparr>"





definition skater_skinner :: roster_player where
  "skater_skinner = \<lparr>raw = ''D Stuart Skinner'', name = ''Stuart Skinner'', position = ''D'',
                      fchl_team = ''SRL''\<rparr>"

definition recognized :: "string \<Rightarrow> bool" where
  \<comment> \<open>the team name of a schedule column is in the static table\<close>
  "recognized full = truthy (map_of NHL_TEAM_MAP (py_strip full))"

definition completed_status :: "string list \<Rightarrow> bool" where
  \<comment> \<open>a row with a status column whose status is not the one of a game still to play\<close>
  "completed_status row = (\<not> length row < 8 \<and> py_strip (row ! 7) \<noteq> ''Scheduled'')"

definition scheduled_status :: "string list \<Rightarrow> bool" where
  "scheduled_status row = (\<not> length row < 8 \<and> py_strip (row ! 7) = ''Scheduled'')"

definition both_recognized :: "string list \<Rightarrow> bool" where
  "both_recognized row = (recognized (row ! 3) \<and> recognized (row ! 5))"

definition one_recognized :: "string list \<Rightarrow> bool" where
  \<comment> \<open>exactly one of the two sides is in the table\<close>
  "one_recognized row = (recognized (row ! 3) \<noteq> recognized (row ! 5))"

definition completed_both :: "string list list \<Rightarrow> nat" where
  "completed_both rows = length (filter (\<lambda>r. completed_status r \<and> both_recognized r) rows)"

definition completed_one :: "string list list \<Rightarrow> nat" where
  "completed_one rows = length (filter (\<lambda>r. completed_status r \<and> one_recognized r) rows)"

definition scheduled_both :: "string list list \<Rightarrow> nat" where
  "scheduled_both rows = length (filter (\<lambda>r. scheduled_status r \<and> both_recognized r) rows)"

definition scheduled_one :: "string list list \<Rightarrow> nat" where
  "scheduled_one rows = length (filter (\<lambda>r. scheduled_status r \<and> one_recognized r) rows)"

definition header_row :: "string list" where
  "header_row = [''Date'', ''Start Time (Sask)'', ''Start Time (ET)'', ''Visitor'', ''Score'',
                 ''Home'', ''Score'', ''Status'', ''Visitor Goalie'', ''Home Goalie'']"

definition row_one_sided :: "string list" where
  \<comment> \<open>a completed game against a team that the table does not have\<close>
  "row_one_sided = [''2025-09-21'', ''5:00 PM'', ''7:00 PM'', ''Boston Bruins'', ''3'',
                    ''Team Europe'', ''1'', ''Regulation'']"

definition row_played :: "string list" where
  "row_played = [''2025-10-07'', ''5:00 PM'', ''7:00 PM'', ''Edmonton Oilers'', ''4'',
                 ''Calgary Flames'', ''2'', ''Regulation'', ''Stuart Skinner'', ''Dustin Wolf'']"

definition row_to_play :: "string list" where
  "row_to_play = [''2026-04-10'', ''5:00 PM'', ''7:00 PM'', ''Calgary Flames'', '''',
                  ''Edmonton Oilers'', '''', ''Scheduled'', '''', '''']"

definition visitor_goalie_of :: "string list \<Rightarrow> string" where
  \<comment> \<open>the visitor's starting goalie as the loop reads it, empty when the column is missing\<close>
  "visitor_goalie_of row = (if length row > 8 then py_strip (row ! 8) else '''')"

definition home_goalie_of :: "string list \<Rightarrow> string" where
  "home_goalie_of row = (if length row > 9 then py_strip (row ! 9) else '''')"

definition wins_in :: "(string, goalie_tally) dict \<Rightarrow> string \<Rightarrow> int" where
  \<comment> \<open>the wins tallied for a goalie, 0 for a goalie without a tally\<close>
  "wins_in gs goalie = wins (dict_get gs goalie new_tally)"

definition wins_of :: "schedule_data \<Rightarrow> string \<Rightarrow> int" where
  "wins_of sd goalie = wins_in (goalie_schedule_stats sd) goalie"

definition row_home_unnamed :: "string list" where
  \<comment> \<open>a completed game whose home starting goalie is not recorded\<close>
  "row_home_unnamed = [''2025-10-07'', ''5:00 PM'', ''7:00 PM'', ''Edmonton Oilers'', ''4'',
                       ''Calgary Flames'', ''2'', ''Regulation'', ''Stuart Skinner'', '''']"

definition is_suffix_token :: "string \<Rightarrow> bool" where
  \<comment> \<open>in the words of the specification: entirely numeric, or a single uppercase letter\<close>
  "is_suffix_token tok = (list_all is_digit tok \<or> (length tok = 1 \<and> list_all is_upper tok))"

definition spec_parse_player_name :: "string \<Rightarrow> string \<times> string" where
  \<comment> \<open>the rule of the specification, on the whitespace-delimited tokens of the raw string\<close>
  "spec_parse_player_name line =
     (let tokens = py_split line in
      if length tokens < 2 then ('''', line)
      else
        let name_tokens = tl tokens in
        if is_suffix_token (last tokens) \<and> butlast name_tokens \<noteq> []
        then (hd tokens, py_join '' '' (butlast name_tokens))
        else (hd tokens, py_join '' '' name_tokens))"

definition row_home_unnamed_shutout :: "string list" where
  \<comment> \<open>a completed game won 3 to 0 by the visitors, the home starting goalie not recorded\<close>
  "row_home_unnamed_shutout = [''2025-10-09'', ''5:00 PM'', ''7:00 PM'', ''Edmonton Oilers'', ''3'',
                               ''Calgary Flames'', ''0'', ''Regulation'', ''Stuart Skinner'', '''']"

section \<open>The projections\<close>

lemma project_skater_returns:
  "\<exists>r. project_skater player stats_key skater_stats tr = Inr r"
  by (auto simp: project_skater_def truediv_def and_then_def Let_def split: option.splits)

lemma project_goalie_returns:
  "\<exists>r. project_goalie player stats_key goalie_stats gss tc tr = Inr r"
  by (auto simp: project_goalie_def int_truediv_def and_then_def Let_def split: option.splits)

lemma project_player_returns:
  "\<exists>r. project_player lk ss gs sd player = Inr r"
  using project_skater_returns project_goalie_returns by (simp add: project_player_def Let_def)

lemma project_all_players_each:
  "\<exists>rs. project_all_players roster lk ss gs sd = Inr rs \<and> length rs = length roster \<and>
        (\<forall>i<length roster. project_player lk ss gs sd (roster ! i) = Inr (rs ! i))"
proof (induction roster)
  case Nil
  then show ?case by simp
next
  case (Cons p ps)
  then obtain rs where rs: "project_all_players ps lk ss gs sd = Inr rs" "length rs = length ps"
    "\<forall>i<length ps. project_player lk ss gs sd (ps ! i) = Inr (rs ! i)" by blast
  obtain r where r: "project_player lk ss gs sd p = Inr r" using project_player_returns by blast
  have "project_all_players (p # ps) lk ss gs sd = Inr (r # rs)"
    by (simp add: r rs and_then_def)
  moreover have "\<forall>i<length (p # ps). project_player lk ss gs sd ((p # ps) ! i) = Inr ((r # rs) ! i)"
    using r rs(3) by (auto simp: nth_Cons split: nat.splits)
  ultimately show ?case using rs(2) by auto
qed





lemma project_goalie_matched:
  assumes "map_of goalie_stats key = Some g"
    and "schedule_tally gss key (name player) = Some t" and "starts t \<noteq> 0"
    and "dict_get tc (gl_nhl_team g) 0 \<noteq> 0"
  shows "project_goalie player (Some key) goalie_stats gss tc tr =
           Inr ((base_projection player)
             \<lparr>nhl_team := gl_nhl_team g, found_in_stats := True,
              proj_wins :=
                float_mul (round_double (real_of_int (wins t) / real_of_int (starts t)))
                  (float_mul
                     (round_double (real_of_int (starts t) / real_of_int (dict_get tc (gl_nhl_team g) 0)))
                     (float_of_int (dict_get tr (gl_nhl_team g) 0))),
              proj_shutouts :=
                float_mul (round_double (real_of_int (shutouts t) / real_of_int (starts t)))
                  (float_mul
                     (round_double (real_of_int (starts t) / real_of_int (dict_get tc (gl_nhl_team g) 0)))
                     (float_of_int (dict_get tr (gl_nhl_team g) 0))),
              proj_pts :=
                float_add
                  (float_mul
                     (float_mul (round_double (real_of_int (wins t) / real_of_int (starts t)))
                        (float_mul
                           (round_double (real_of_int (starts t) / real_of_int (dict_get tc (gl_nhl_team g) 0)))
                           (float_of_int (dict_get tr (gl_nhl_team g) 0))))
                     (float_of_int WIN_PTS))
                  (float_mul
                     (float_mul (round_double (real_of_int (shutouts t) / real_of_int (starts t)))
                        (float_mul
                           (round_double (real_of_int (starts t) / real_of_int (dict_get tc (gl_nhl_team g) 0)))
                           (float_of_int (dict_get tr (gl_nhl_team g) 0))))
                     (float_of_int SHUTOUT_PTS))\<rparr>)"
  using assms
  by (simp add: project_goalie_def int_truediv_def and_then_def Let_def tally_get_def)

subsection \<open>Rounding is to a nearest number of the grid\<close>

lemma pow2_pos: "0 < pow2 k"
  by (simp add: pow2_def)

lemma round_half_even_near: "\<bar>real_of_int (round_half_even q) - q\<bar> \<le> 1 / 2"
proof -
  have "real_of_int \<lfloor>q\<rfloor> \<le> q" and "q < real_of_int \<lfloor>q\<rfloor> + 1"
    by linarith+
  then show ?thesis
    by (auto simp: round_half_even_def Let_def)
qed

lemma round_double_near:
  "\<bar>round_double x - x\<bar> \<le> pow2 (max (binary_exponent \<bar>x\<bar>) (- 1022) - 52) / 2"
proof (cases "x = 0")
  case True
  then show ?thesis
    using pow2_pos [of "max (binary_exponent \<bar>x\<bar>) (- 1022) - 52"]
    by (simp add: round_double_def)
next
  case False
  define u where "u = pow2 (max (binary_exponent \<bar>x\<bar>) (- 1022) - 52)"
  define n where "n = round_half_even (\<bar>x\<bar> / u)"
  have u: "0 < u"
    unfolding u_def by (rule pow2_pos)
  have r: "round_double x = sgn x * real_of_int n * u"
    using False by (simp add: round_double_def Let_def u_def n_def)
  have "\<bar>real_of_int n - \<bar>x\<bar> / u\<bar> \<le> 1 / 2"
    unfolding n_def by (rule round_half_even_near)
  then have "\<bar>real_of_int n - \<bar>x\<bar> / u\<bar> * u \<le> 1 / 2 * u"
    using u by (simp add: mult_right_mono)
  moreover have "\<bar>real_of_int n - \<bar>x\<bar> / u\<bar> * u = \<bar>real_of_int n * u - \<bar>x\<bar>\<bar>"
  proof -
    have "(real_of_int n - \<bar>x\<bar> / u) * u = real_of_int n * u - \<bar>x\<bar>"
      using u by (simp add: left_diff_distrib)
    then have "\<bar>real_of_int n * u - \<bar>x\<bar>\<bar> = \<bar>real_of_int n - \<bar>x\<bar> / u\<bar> * \<bar>u\<bar>"
      by (metis abs_mult)
    then show ?thesis using u by simp
  qed
  moreover have "round_double x - x = sgn x * (real_of_int n * u - \<bar>x\<bar>)"
    using r by (simp add: right_diff_distrib sgn_mult_abs mult.assoc)
  moreover have "\<bar>sgn x\<bar> = 1"
    using False by (simp add: abs_sgn_eq)
  ultimately have "\<bar>round_double x - x\<bar> \<le> 1 / 2 * u"
    by (simp add: abs_mult)
  then show ?thesis
    by (simp add: u_def)
qed

subsection \<open>Rounding at the numbers of the goalie example\<close>

lemma floor_log2_values:
  "floor_log2 (Suc 0) = 0" "floor_log2 2 = 1" "floor_log2 3 = 1" "floor_log2 7 = 2"
  "floor_log2 10 = 3" "floor_log2 12 = 3" "floor_log2 14 = 3" "floor_log2 15 = 3"
  "floor_log2 17 = 4"
  by code_simp+

lemmas exponent_simps = binary_exponent_def pow2_def Let_def floor_log2_values

lemmas mantissa_simps = pow2_def round_half_even_def Let_def

lemma round_double_pos:
  assumes "0 < x" and "binary_exponent x = e" and "- 1022 \<le> e"
  shows "round_double x = of_int (round_half_even (x / pow2 (e - 52))) * pow2 (e - 52)"
  using assms by (simp add: round_double_def Let_def max_def)

lemma win_rate_example:
  "round_double (real_of_int 12 / real_of_int 20) = 5404319552844595 / 2 ^ 53"
proof -
  have e: "binary_exponent (3 / 5) = - 1"
    by (simp add: exponent_simps)
  have "round_double (3 / 5) = 5404319552844595 / 2 ^ 53"
    using round_double_pos [OF _ e] by (simp add: mantissa_simps)
  then show ?thesis by simp
qed

lemma shutout_rate_example:
  "round_double (real_of_int 2 / real_of_int 20) = 7205759403792794 / 2 ^ 56"
proof -
  have e: "binary_exponent (1 / 10) = - 4"
    by (simp add: exponent_simps)
  have "round_double (1 / 10) = 7205759403792794 / 2 ^ 56"
    using round_double_pos [OF _ e] by (simp add: mantissa_simps)
  then show ?thesis by simp
qed

lemma share_example:
  "round_double (real_of_int 20 / real_of_int 25) = 7205759403792794 / 2 ^ 53"
proof -
  have e: "binary_exponent (4 / 5) = - 1"
    by (simp add: exponent_simps)
  have "round_double (4 / 5) = 7205759403792794 / 2 ^ 53"
    using round_double_pos [OF _ e] by (simp add: mantissa_simps)
  then show ?thesis by simp
qed

lemma float_of_int_example: "float_of_int 15 = 15" "float_of_int 2 = 2" "float_of_int 3 = 3"
proof -
  have e: "binary_exponent 15 = 3" "binary_exponent 2 = 1" "binary_exponent 3 = 1"
    by (simp_all add: exponent_simps)
  show "float_of_int 15 = 15"
    using round_double_pos [OF _ e(1)] by (simp add: float_of_int_def mantissa_simps)
  show "float_of_int 2 = 2"
    using round_double_pos [OF _ e(2)] by (simp add: float_of_int_def mantissa_simps)
  show "float_of_int 3 = 3"
    using round_double_pos [OF _ e(3)] by (simp add: float_of_int_def mantissa_simps)
qed

lemma remaining_starts_example: "float_mul (7205759403792794 / 2 ^ 53) 15 = 12"
proof -
  have e: "binary_exponent (7205759403792794 / 2 ^ 53 * 15) = 3"
    by (simp add: exponent_simps)
  show ?thesis
    unfolding float_mul_def using round_double_pos [OF _ e] by (simp add: mantissa_simps)
qed

lemma proj_wins_example:
  "float_mul (5404319552844595 / 2 ^ 53) 12 = 8106479329266892 / 2 ^ 50"
proof -
  have e: "binary_exponent (5404319552844595 / 2 ^ 53 * 12) = 2"
    by (simp add: exponent_simps)
  show ?thesis
    unfolding float_mul_def using round_double_pos [OF _ e] by (simp add: mantissa_simps)
qed

lemma proj_shutouts_example:
  "float_mul (7205759403792794 / 2 ^ 56) 12 = 5404319552844596 / 2 ^ 52"
proof -
  have e: "binary_exponent (7205759403792794 / 2 ^ 56 * 12) = 0"
    by (simp add: exponent_simps)
  show ?thesis
    unfolding float_mul_def using round_double_pos [OF _ e] by (simp add: mantissa_simps)
qed

lemma win_points_example:
  "float_mul (8106479329266892 / 2 ^ 50) 2 = 8106479329266892 / 2 ^ 49"
proof -
  have e: "binary_exponent (8106479329266892 / 2 ^ 50 * 2) = 3"
    by (simp add: exponent_simps)
  show ?thesis
    unfolding float_mul_def using round_double_pos [OF _ e] by (simp add: mantissa_simps)
qed

lemma shutout_points_example:
  "float_mul (5404319552844596 / 2 ^ 52) 3 = 8106479329266894 / 2 ^ 51"
proof -
  have e: "binary_exponent (5404319552844596 / 2 ^ 52 * 3) = 1"
    by (simp add: exponent_simps)
  show ?thesis
    unfolding float_mul_def using round_double_pos [OF _ e] by (simp add: mantissa_simps)
qed

lemma proj_pts_example:
  "float_add (8106479329266892 / 2 ^ 49) (8106479329266894 / 2 ^ 51) = 18"
proof -
  have e: "binary_exponent (8106479329266892 / 2 ^ 49 + 8106479329266894 / 2 ^ 51) = 4"
    by (simp add: exponent_simps)
  show ?thesis
    unfolding float_add_def using round_double_pos [OF _ e] by (simp add: mantissa_simps)
qed

lemma nearest_to_stated_values:
  "round_double 7.2 = 8106479329266893 / 2 ^ 50" "round_double 1.2 = 5404319552844595 / 2 ^ 52"
proof -
  have e: "binary_exponent 7.2 = 2" "binary_exponent 1.2 = 0"
    by (simp_all add: exponent_simps)
  show "round_double 7.2 = 8106479329266893 / 2 ^ 50"
    using round_double_pos [OF _ e(1)] by (simp add: mantissa_simps)
  show "round_double 1.2 = 5404319552844595 / 2 ^ 52"
    using round_double_pos [OF _ e(2)] by (simp add: mantissa_simps)
qed

subsection \<open>The goalie projection\<close>

lemma float_of_points: "float_of_int WIN_PTS = 2" "float_of_int SHUTOUT_PTS = 3"
  by (simp_all only: WIN_PTS_def SHUTOUT_PTS_def float_of_int_example)

lemma example_rounding:
  "float_mul (round_double (real_of_int 20 / real_of_int 25)) (float_of_int 15) = 12"
  "float_mul (round_double (real_of_int 12 / real_of_int 20)) 12 = 8106479329266892 / 2 ^ 50"
  "float_mul (round_double (real_of_int 2 / real_of_int 20)) 12 = 5404319552844596 / 2 ^ 52"
  by (simp_all only: share_example win_rate_example shutout_rate_example float_of_int_example
      remaining_starts_example proj_wins_example proj_shutouts_example)

lemma project_goalie_example:
  "project_goalie goalie_skinner (Some ''Stuart Skinner'') [(''Stuart Skinner'', stats_skinner)]
     [(''Stuart Skinner'', tally_skinner)] [(''EDM'', 25)] [(''EDM'', 15)] =
   Inr \<lparr>pp_name = ''Stuart Skinner'', pp_position = ''G'', pp_fchl_team = ''GVR'',
        nhl_team = ''EDM'', proj_goals = 0, proj_assists = 0,
        proj_wins = 8106479329266892 / 2 ^ 50, proj_shutouts = 5404319552844596 / 2 ^ 52,
        proj_pts = 18, found_in_stats = True\<rparr>"
proof -
  have h: "map_of [(''Stuart Skinner'', stats_skinner)] ''Stuart Skinner'' = Some stats_skinner"
    by simp
  have t: "schedule_tally [(''Stuart Skinner'', tally_skinner)] ''Stuart Skinner''
             (name goalie_skinner) = Some tally_skinner"
    by (simp add: schedule_tally_def)
  have s: "starts tally_skinner \<noteq> 0"
    by (simp add: tally_skinner_def)
  have c: "dict_get [(''EDM'', 25::int)] (gl_nhl_team stats_skinner) 0 \<noteq> 0"
    by (simp add: dict_get_def stats_skinner_def)
  have vals: "wins tally_skinner = 12" "starts tally_skinner = 20" "shutouts tally_skinner = 2"
    "dict_get [(''EDM'', 25::int)] (gl_nhl_team stats_skinner) 0 = 25"
    "dict_get [(''EDM'', 15::int)] (gl_nhl_team stats_skinner) 0 = 15"
    by (simp_all add: tally_skinner_def dict_get_def stats_skinner_def)
  have "project_goalie goalie_skinner (Some ''Stuart Skinner'')
          [(''Stuart Skinner'', stats_skinner)] [(''Stuart Skinner'', tally_skinner)]
          [(''EDM'', 25)] [(''EDM'', 15)] =
        Inr ((base_projection goalie_skinner)
          \<lparr>nhl_team := gl_nhl_team stats_skinner, found_in_stats := True,
           proj_wins := 8106479329266892 / 2 ^ 50, proj_shutouts := 5404319552844596 / 2 ^ 52,
           proj_pts := 18\<rparr>)"
    using project_goalie_matched [OF h t s c, of "[(''EDM'', 15)]"]
    by (simp only: vals float_of_points example_rounding win_points_example
        shutout_points_example proj_pts_example)
  then show ?thesis
    by (simp add: base_projection_def goalie_skinner_def stats_skinner_def)
qed

text \<open>
  C3, as the specification states it, fails at its own example: for 20 starts, 12 wins,
  2 shutouts, 25 completed and 15 remaining games the program returns the binary64 numbers
  \<open>8106479329266892 / 2 ^ 50\<close> (printed 7.199999999999999) and \<open>5404319552844596 / 2 ^ 52\<close>
  (printed 1.2000000000000002) as projected wins and shutouts, not 7.2 and 1.2; the nearest
  binary64 numbers to 7.2 and 1.2 are the neighbours \<open>8106479329266893 / 2 ^ 50\<close> and
  \<open>5404319552844595 / 2 ^ 52\<close>.
\<close>

theorem project_goalie_example_counterexample:
  "project_goalie goalie_skinner (Some ''Stuart Skinner'') [(''Stuart Skinner'', stats_skinner)]
     [(''Stuart Skinner'', tally_skinner)] [(''EDM'', 25)] [(''EDM'', 15)] =
   Inr \<lparr>pp_name = ''Stuart Skinner'', pp_position = ''G'', pp_fchl_team = ''GVR'',
        nhl_team = ''EDM'', proj_goals = 0, proj_assists = 0,
        proj_wins = 8106479329266892 / 2 ^ 50, proj_shutouts = 5404319552844596 / 2 ^ 52,
        proj_pts = 18, found_in_stats = True\<rparr> \<and>
   (8106479329266892 / 2 ^ 50 :: real) \<noteq> 7.2 \<and>
   (8106479329266892 / 2 ^ 50 :: real) \<noteq> round_double 7.2 \<and>
   (5404319552844596 / 2 ^ 52 :: real) \<noteq> 1.2 \<and>
   (5404319552844596 / 2 ^ 52 :: real) \<noteq> round_double 1.2"
proof (intro conjI)
  show "project_goalie goalie_skinner (Some ''Stuart Skinner'') [(''Stuart Skinner'', stats_skinner)]
     [(''Stuart Skinner'', tally_skinner)] [(''EDM'', 25)] [(''EDM'', 15)] =
   Inr \<lparr>pp_name = ''Stuart Skinner'', pp_position = ''G'', pp_fchl_team = ''GVR'',
        nhl_team = ''EDM'', proj_goals = 0, proj_assists = 0,
        proj_wins = 8106479329266892 / 2 ^ 50, proj_shutouts = 5404319552844596 / 2 ^ 52,
        proj_pts = 18, found_in_stats = True\<rparr>"
    by (rule project_goalie_example)
  show "(8106479329266892 / 2 ^ 50 :: real) \<noteq> 7.2"
    by simp
  show "(8106479329266892 / 2 ^ 50 :: real) \<noteq> round_double 7.2"
    unfolding nearest_to_stated_values by simp
  show "(5404319552844596 / 2 ^ 52 :: real) \<noteq> 1.2"
    by simp
  show "(5404319552844596 / 2 ^ 52 :: real) \<noteq> round_double 1.2"
    unfolding nearest_to_stated_values by simp
qed

text \<open>
  C3, amended.  For a roster player matched to a goalie record \<open>g\<close>, the tally \<open>t\<close> is the
  entry of the schedule-derived map under the matched key, or, when the map has no such key,
  the entry under the roster name.  With \<open>starts > 0\<close> and a completed-game count \<open>> 0\<close> for
  the team, and with every operation rounded to the nearest binary64 number,
  \<open>remaining_starts = (starts / completed) \<times> remaining\<close>, projected wins are
  \<open>(wins / starts) \<times> remaining_starts\<close>, projected shutouts
  \<open>(shutouts / starts) \<times> remaining_starts\<close> and projected points
  \<open>proj_wins \<times> 2 + proj_shutouts \<times> 3\<close>.  For 20 starts, 12 wins, 2 shutouts, 25 completed
  and 15 remaining games this gives remaining starts 12.0 and projected points 18.0 exactly,
  and projected wins and shutouts within \<open>1 / 10 ^ 15\<close> of 7.2 and 1.2.
\<close>

theorem project_goalie_formula:
  assumes "map_of goalie_stats key = Some g"
    and "map_of gss key = Some t \<or> (map_of gss key = None \<and> map_of gss (name player) = Some t)"
    and "starts t > 0"
    and "dict_get tc (gl_nhl_team g) 0 > 0"
  shows "(\<exists>r win_rate shutout_rate remaining_starts.
            project_goalie player (Some key) goalie_stats gss tc tr = Inr r \<and>
            win_rate = round_double (real_of_int (wins t) / real_of_int (starts t)) \<and>
            shutout_rate = round_double (real_of_int (shutouts t) / real_of_int (starts t)) \<and>
            remaining_starts =
              float_mul
                (round_double (real_of_int (starts t) / real_of_int (dict_get tc (gl_nhl_team g) 0)))
                (float_of_int (dict_get tr (gl_nhl_team g) 0)) \<and>
            proj_wins r = float_mul win_rate remaining_starts \<and>
            proj_shutouts r = float_mul shutout_rate remaining_starts \<and>
            proj_pts r = float_add (float_mul (proj_wins r) 2) (float_mul (proj_shutouts r) 3)) \<and>
         (\<exists>r remaining_starts.
            project_goalie goalie_skinner (Some ''Stuart Skinner'')
              [(''Stuart Skinner'', stats_skinner)] [(''Stuart Skinner'', tally_skinner)]
              [(''EDM'', 25)] [(''EDM'', 15)] = Inr r \<and>
            remaining_starts
              = float_mul (round_double (real_of_int 20 / real_of_int 25)) (float_of_int 15) \<and>
            remaining_starts = 12.0 \<and>
            proj_wins r = float_mul (round_double (real_of_int 12 / real_of_int 20)) remaining_starts \<and>
            proj_shutouts r = float_mul (round_double (real_of_int 2 / real_of_int 20)) remaining_starts \<and>
            proj_wins r = 8106479329266892 / 2 ^ 50 \<and>
            proj_shutouts r = 5404319552844596 / 2 ^ 52 \<and>
            \<bar>proj_wins r - 7.2\<bar> < 1 / 10 ^ 15 \<and>
            \<bar>proj_shutouts r - 1.2\<bar> < 1 / 10 ^ 15 \<and>
            proj_pts r = 18.0)"
proof -
  have "schedule_tally gss key (name player) = Some t"
    using assms(2) by (auto simp: schedule_tally_def)
  from project_goalie_matched [OF assms(1) this, of tc tr] assms(3,4)
  have general: "\<exists>r win_rate shutout_rate remaining_starts.
            project_goalie player (Some key) goalie_stats gss tc tr = Inr r \<and>
            win_rate = round_double (real_of_int (wins t) / real_of_int (starts t)) \<and>
            shutout_rate = round_double (real_of_int (shutouts t) / real_of_int (starts t)) \<and>
            remaining_starts =
              float_mul
                (round_double (real_of_int (starts t) / real_of_int (dict_get tc (gl_nhl_team g) 0)))
                (float_of_int (dict_get tr (gl_nhl_team g) 0)) \<and>
            proj_wins r = float_mul win_rate remaining_starts \<and>
            proj_shutouts r = float_mul shutout_rate remaining_starts \<and>
            proj_pts r = float_add (float_mul (proj_wins r) 2) (float_mul (proj_shutouts r) 3)"
    by (simp add: base_projection_def float_of_points)
  have example: "\<exists>r remaining_starts.
            project_goalie goalie_skinner (Some ''Stuart Skinner'')
              [(''Stuart Skinner'', stats_skinner)] [(''Stuart Skinner'', tally_skinner)]
              [(''EDM'', 25)] [(''EDM'', 15)] = Inr r \<and>
            remaining_starts
              = float_mul (round_double (real_of_int 20 / real_of_int 25)) (float_of_int 15) \<and>
            remaining_starts = 12.0 \<and>
            proj_wins r = float_mul (round_double (real_of_int 12 / real_of_int 20)) remaining_starts \<and>
            proj_shutouts r = float_mul (round_double (real_of_int 2 / real_of_int 20)) remaining_starts \<and>
            proj_wins r = 8106479329266892 / 2 ^ 50 \<and>
            proj_shutouts r = 5404319552844596 / 2 ^ 52 \<and>
            \<bar>proj_wins r - 7.2\<bar> < 1 / 10 ^ 15 \<and>
            \<bar>proj_shutouts r - 1.2\<bar> < 1 / 10 ^ 15 \<and>
            proj_pts r = 18.0"
  proof -
    let ?r = "\<lparr>pp_name = ''Stuart Skinner'', pp_position = ''G'', pp_fchl_team = ''GVR'',
        nhl_team = ''EDM'', proj_goals = 0, proj_assists = 0,
        proj_wins = 8106479329266892 / 2 ^ 50, proj_shutouts = 5404319552844596 / 2 ^ 52,
        proj_pts = 18, found_in_stats = True\<rparr>"
    have 1: "project_goalie goalie_skinner (Some ''Stuart Skinner'')
              [(''Stuart Skinner'', stats_skinner)] [(''Stuart Skinner'', tally_skinner)]
              [(''EDM'', 25)] [(''EDM'', 15)] = Inr ?r"
      by (rule project_goalie_example)
    have 2: "(12::real) = float_mul (round_double (real_of_int 20 / real_of_int 25)) (float_of_int 15)"
      by (simp only: example_rounding)
    have 3: "(12::real) = 12.0"
      by simp
    have pw: "proj_wins ?r = 8106479329266892 / 2 ^ 50"
      and ps: "proj_shutouts ?r = 5404319552844596 / 2 ^ 52"
      by simp_all
    have 4: "proj_wins ?r = float_mul (round_double (real_of_int 12 / real_of_int 20)) 12"
      by (simp only: pw example_rounding)
    have 5: "proj_shutouts ?r = float_mul (round_double (real_of_int 2 / real_of_int 20)) 12"
      by (simp only: ps example_rounding)
    have 6: "\<bar>proj_wins ?r - 7.2\<bar> < 1 / 10 ^ 15"
      and 7: "\<bar>proj_shutouts ?r - 1.2\<bar> < 1 / 10 ^ 15"
      and 8: "proj_pts ?r = 18.0"
      by simp_all
    show ?thesis
      by (intro exI conjI) (rule 1 2 3 4 5 pw ps 6 7 8)+
  qed
  from general example show ?thesis by (rule conjI)
qed

theorem project_goalie_formula_witness:
  "map_of [(''S. Skinner'', stats_skinner)] ''S. Skinner'' = Some stats_skinner \<and>
   (map_of [(''Stuart Skinner'', tally_skinner)] ''S. Skinner'' = None \<and>
    map_of [(''Stuart Skinner'', tally_skinner)] (name goalie_skinner) = Some tally_skinner) \<and>
   starts tally_skinner > 0 \<and> dict_get [(''EDM'', 25::int)] (gl_nhl_team stats_skinner) 0 > 0 \<and>
   (\<exists>r. project_goalie goalie_skinner (Some ''S. Skinner'') [(''S. Skinner'', stats_skinner)]
           [(''Stuart Skinner'', tally_skinner)] [(''EDM'', 25)] [(''EDM'', 15)] = Inr r \<and>
         proj_wins r = 8106479329266892 / 2 ^ 50 \<and>
         proj_shutouts r = 5404319552844596 / 2 ^ 52)"
proof -
  have h1: "map_of [(''S. Skinner'', stats_skinner)] ''S. Skinner'' = Some stats_skinner"
    by simp
  have h2: "map_of [(''Stuart Skinner'', tally_skinner)] ''S. Skinner'' = Some tally_skinner \<or>
            (map_of [(''Stuart Skinner'', tally_skinner)] ''S. Skinner'' = None \<and>
             map_of [(''Stuart Skinner'', tally_skinner)] (name goalie_skinner) = Some tally_skinner)"
    by (simp add: goalie_skinner_def)
  have h3: "starts tally_skinner > 0"
    by (simp add: tally_skinner_def)
  have h4: "dict_get [(''EDM'', 25::int)] (gl_nhl_team stats_skinner) 0 > 0"
    by (simp add: dict_get_def stats_skinner_def)
  have t: "starts tally_skinner = 20" "wins tally_skinner = 12" "shutouts tally_skinner = 2"
    by (simp_all add: tally_skinner_def)
  have d: "dict_get [(''EDM'', 25::int)] (gl_nhl_team stats_skinner) 0 = 25"
    "dict_get [(''EDM'', 15::int)] (gl_nhl_team stats_skinner) 0 = 15"
    by (simp_all add: dict_get_def stats_skinner_def)
  from project_goalie_formula [OF h1 h2 h3 h4, of "[(''EDM'', 15)]"]
  obtain r where
    "project_goalie goalie_skinner (Some ''S. Skinner'') [(''S. Skinner'', stats_skinner)]
       [(''Stuart Skinner'', tally_skinner)] [(''EDM'', 25)] [(''EDM'', 15)] = Inr r"
    "proj_wins r = float_mul (round_double (real_of_int 12 / real_of_int 20))
       (float_mul (round_double (real_of_int 20 / real_of_int 25)) (float_of_int 15))"
    "proj_shutouts r = float_mul (round_double (real_of_int 2 / real_of_int 20))
       (float_mul (round_double (real_of_int 20 / real_of_int 25)) (float_of_int 15))"
    unfolding t d by blast
  then have "\<exists>r. project_goalie goalie_skinner (Some ''S. Skinner'') [(''S. Skinner'', stats_skinner)]
           [(''Stuart Skinner'', tally_skinner)] [(''EDM'', 25)] [(''EDM'', 15)] = Inr r \<and>
         proj_wins r = 8106479329266892 / 2 ^ 50 \<and>
         proj_shutouts r = 5404319552844596 / 2 ^ 52"
    by (simp only: example_rounding) blast
  with h1 h2 h3 h4 show ?thesis
    by (simp add: goalie_skinner_def)
qed

lemma project_skater_unplayed:
  assumes "map_of skater_stats key = Some s" and "games_played s \<le> 0"
  shows "project_skater player (Some key) skater_stats tr =
           Inr ((base_projection player)\<lparr>nhl_team := sk_nhl_team s, found_in_stats := True\<rparr>)"
  using assms by (simp add: project_skater_def Let_def)

lemma project_goalie_unplayed:
  assumes "map_of goalie_stats key = Some g"
    and "tally_get (schedule_tally gss key (name player)) starts = 0 \<or>
         dict_get tc (gl_nhl_team g) 0 = 0"
  shows "project_goalie player (Some key) goalie_stats gss tc tr =
           Inr ((base_projection player)\<lparr>nhl_team := gl_nhl_team g, found_in_stats := True\<rparr>)"
  using assms by (auto simp: project_goalie_def Let_def)

text \<open>
  C8.  Neither projection function ever raises: every call returns a projection, so in
  particular no division by zero happens.  A matched skater with zero games played, and a
  matched goalie with zero starts or with a team that has no completed game, get the
  projection with every projected number zero.
\<close>

theorem projections_never_divide_by_zero:
  "(\<exists>r. project_skater player stats_key skater_stats tr = Inr r) \<and>
   (\<exists>r. project_goalie player stats_key goalie_stats gss tc tr = Inr r) \<and>
   (map_of skater_stats key = Some s \<and> games_played s = 0 \<longrightarrow>
      (\<exists>r. project_skater player (Some key) skater_stats tr = Inr r \<and> all_zero r)) \<and>
   (map_of goalie_stats key = Some g \<and>
    (tally_get (schedule_tally gss key (name player)) starts = 0 \<or>
     dict_get tc (gl_nhl_team g) 0 = 0) \<longrightarrow>
      (\<exists>r. project_goalie player (Some key) goalie_stats gss tc tr = Inr r \<and> all_zero r))"
proof -
  have "all_zero ((base_projection player)\<lparr>nhl_team := team, found_in_stats := True\<rparr>)" for team
    by (simp add: all_zero_def base_projection_def)
  then show ?thesis
    using project_skater_returns [of player stats_key skater_stats tr]
      project_goalie_returns [of player stats_key goalie_stats gss tc tr]
      project_skater_unplayed [of skater_stats key s player tr]
      project_goalie_unplayed [of goalie_stats key g gss player tc tr]
    by auto
qed

theorem projections_never_divide_by_zero_witness:
  "(map_of [(''Connor McDavid'', stats_benched)] ''Connor McDavid'' = Some stats_benched \<and>
    games_played stats_benched = 0) \<and>
   (\<exists>r. project_skater skater_mcdavid (Some ''Connor McDavid'')
           [(''Connor McDavid'', stats_benched)] [(''EDM'', 10)] = Inr r \<and> all_zero r) \<and>
   (map_of [(''Stuart Skinner'', stats_skinner)] ''Stuart Skinner'' = Some stats_skinner \<and>
    dict_get [] (gl_nhl_team stats_skinner) (0::int) = 0) \<and>
   (\<exists>r. project_goalie goalie_skinner (Some ''Stuart Skinner'')
           [(''Stuart Skinner'', stats_skinner)] [(''Stuart Skinner'', tally_skinner)]
           [] [(''EDM'', 15)] = Inr r \<and> all_zero r)"
proof -
  have s: "map_of [(''Connor McDavid'', stats_benched)] ''Connor McDavid'' = Some stats_benched \<and>
           games_played stats_benched = 0"
    by (simp add: stats_benched_def)
  have g: "map_of [(''Stuart Skinner'', stats_skinner)] ''Stuart Skinner'' = Some stats_skinner \<and>
           dict_get [] (gl_nhl_team stats_skinner) (0::int) = 0"
    by (simp add: dict_get_def)
  show ?thesis
    using s g
      projections_never_divide_by_zero [of skater_mcdavid None
        "[(''Connor McDavid'', stats_benched)]" "[(''EDM'', 10)]"
        "[(''Stuart Skinner'', stats_skinner)]" "[(''Stuart Skinner'', tally_skinner)]" "[]"
        "''Connor McDavid''" stats_benched]
      projections_never_divide_by_zero [of goalie_skinner None
        "[(''Connor McDavid'', stats_benched)]" "[(''EDM'', 15)]"
        "[(''Stuart Skinner'', stats_skinner)]" "[(''Stuart Skinner'', tally_skinner)]" "[]"
        "''Stuart Skinner''" stats_benched stats_skinner]
    by simp
qed

lemma project_skater_fields:
  assumes "project_skater player stats_key skater_stats tr = Inr r"
  shows "proj_wins r = 0 \<and> proj_shutouts r = 0 \<and>
         (found_in_stats r \<longleftrightarrow> (\<exists>key. stats_key = Some key \<and> map_of skater_stats key \<noteq> None)) \<and>
         (\<not> found_in_stats r \<longrightarrow> all_zero r)"
  using assms
  by (auto simp: project_skater_def truediv_def and_then_def Let_def base_projection_def
      all_zero_def split: option.splits if_splits)

lemma project_goalie_fields:
  assumes "project_goalie player stats_key goalie_stats gss tc tr = Inr r"
  shows "proj_goals r = 0 \<and> proj_assists r = 0 \<and>
         (found_in_stats r \<longleftrightarrow> (\<exists>key. stats_key = Some key \<and> map_of goalie_stats key \<noteq> None)) \<and>
         (\<not> found_in_stats r \<longrightarrow> all_zero r)"
  using assms
  by (auto simp: project_goalie_def int_truediv_def and_then_def Let_def base_projection_def
      all_zero_def split: option.splits if_splits)

lemma project_player_fields:
  assumes "project_player lk ss gs sd player = Inr r"
  shows "(position player \<noteq> ''G'' \<longrightarrow> proj_wins r = 0 \<and> proj_shutouts r = 0) \<and>
         (position player = ''G'' \<longrightarrow> proj_goals r = 0 \<and> proj_assists r = 0) \<and>
         (found_in_stats r \<longleftrightarrow> matched_in_stats player lk ss gs) \<and>
         (\<not> found_in_stats r \<longrightarrow> all_zero r)"
proof (cases "position player = ''G''")
  case True
  then have "project_goalie player (dict_get lk (name player) None) gs (goalie_schedule_stats sd)
               (team_completed sd) (team_remaining sd) = Inr r"
    using assms by (simp add: project_player_def Let_def)
  from project_goalie_fields [OF this] True show ?thesis
    by (auto simp: matched_in_stats_def split: option.splits)
next
  case False
  then have "project_skater player (dict_get lk (name player) None) ss (team_remaining sd) = Inr r"
    using assms by (simp add: project_player_def Let_def)
  from project_skater_fields [OF this] False show ?thesis
    by (auto simp: matched_in_stats_def split: option.splits)
qed

text \<open>
  C10.  \<^const>\<open>project_all_players\<close> returns one projection per roster player, in roster order;
  the projection of a player whose position is not \<open>G\<close> has projected wins and shutouts 0,
  and the projection of a player whose position is \<open>G\<close> has projected goals and assists 0.
\<close>

theorem position_determines_fields:
  "\<exists>results. project_all_players roster lk ss gs sd = Inr results \<and>
     length results = length roster \<and>
     (\<forall>i<length roster.
        (position (roster ! i) \<noteq> ''G'' \<longrightarrow>
           proj_wins (results ! i) = 0 \<and> proj_shutouts (results ! i) = 0) \<and>
        (position (roster ! i) = ''G'' \<longrightarrow>
           proj_goals (results ! i) = 0 \<and> proj_assists (results ! i) = 0))"
proof -
  obtain rs where rs: "project_all_players roster lk ss gs sd = Inr rs" "length rs = length roster"
    "\<forall>i<length roster. project_player lk ss gs sd (roster ! i) = Inr (rs ! i)"
    using project_all_players_each by blast
  have "(position (roster ! i) \<noteq> ''G'' \<longrightarrow> proj_wins (rs ! i) = 0 \<and> proj_shutouts (rs ! i) = 0) \<and>
        (position (roster ! i) = ''G'' \<longrightarrow> proj_goals (rs ! i) = 0 \<and> proj_assists (rs ! i) = 0)"
    if "i < length roster" for i
    using project_player_fields [of lk ss gs sd "roster ! i" "rs ! i"] rs(3) that by blast
  with rs(1,2) show ?thesis by blast
qed

theorem position_determines_fields_witness:
  "\<exists>results. project_all_players [skater_mcdavid, goalie_skinner] example_lookup
       [(''Connor McDavid'', stats_mcdavid)] [(''Stuart Skinner'', stats_skinner)]
       example_schedule = Inr results \<and>
     length results = 2 \<and>
     position ([skater_mcdavid, goalie_skinner] ! 0) \<noteq> ''G'' \<and>
     proj_wins (results ! 0) = 0 \<and> proj_shutouts (results ! 0) = 0 \<and>
     position ([skater_mcdavid, goalie_skinner] ! 1) = ''G'' \<and>
     proj_goals (results ! 1) = 0 \<and> proj_assists (results ! 1) = 0"
proof -
  obtain results where
    r: "project_all_players [skater_mcdavid, goalie_skinner] example_lookup
          [(''Connor McDavid'', stats_mcdavid)] [(''Stuart Skinner'', stats_skinner)]
          example_schedule = Inr results"
       "length results = length [skater_mcdavid, goalie_skinner]"
    and each: "\<forall>i<length [skater_mcdavid, goalie_skinner].
        (position ([skater_mcdavid, goalie_skinner] ! i) \<noteq> ''G'' \<longrightarrow>
           proj_wins (results ! i) = 0 \<and> proj_shutouts (results ! i) = 0) \<and>
        (position ([skater_mcdavid, goalie_skinner] ! i) = ''G'' \<longrightarrow>
           proj_goals (results ! i) = 0 \<and> proj_assists (results ! i) = 0)"
    using position_determines_fields [of "[skater_mcdavid, goalie_skinner]" example_lookup
        "[(''Connor McDavid'', stats_mcdavid)]" "[(''Stuart Skinner'', stats_skinner)]"
        example_schedule]
    by blast
  have p0: "position ([skater_mcdavid, goalie_skinner] ! 0) \<noteq> ''G''"
    by (simp add: skater_mcdavid_def)
  have p1: "position ([skater_mcdavid, goalie_skinner] ! 1) = ''G''"
    by (simp add: goalie_skinner_def)
  from each [rule_format, of 0] p0
  have f0: "proj_wins (results ! 0) = 0 \<and> proj_shutouts (results ! 0) = 0" by simp
  from each [rule_format, of 1] p1
  have f1: "proj_goals (results ! 1) = 0 \<and> proj_assists (results ! 1) = 0" by simp
  from r p0 p1 f0 f1 show ?thesis by simp
qed

text \<open>
  C2, as the specification states it, fails: below, the lookup built for the roster gives the
  name of the second roster player a match (the key found for the first player of that name,
  a skater), yet the second player is a goalie, the goalie collection has no such key, and
  the projection has \<open>found_in_stats = False\<close>.
\<close>

theorem found_in_stats_counterexample:
  "dict_get (build_player_lookup no_candidate [skater_aho, goalie_aho]
               [(''Sebastian Aho'', stats_aho)] []) (name goalie_aho) None
     = Some ''Sebastian Aho'' \<and>
   project_all_players [skater_aho, goalie_aho]
     (build_player_lookup no_candidate [skater_aho, goalie_aho] [(''Sebastian Aho'', stats_aho)] [])
     [(''Sebastian Aho'', stats_aho)] [] example_schedule
     = Inr [(base_projection skater_aho)\<lparr>nhl_team := ''CAR'', found_in_stats := True\<rparr>,
            base_projection goalie_aho] \<and>
   found_in_stats (base_projection goalie_aho) = False"
  by code_simp

text \<open>
  C2, amended.  \<^const>\<open>project_all_players\<close> returns one projection per roster player, and the
  projection of a player has \<open>found_in_stats = False\<close> if and only if the lookup gives no match
  for the player's name or the matched key is not a key of the collection consulted for the
  player's position (the goalie collection for position \<open>G\<close>, the skater collection
  otherwise); whenever \<open>found_in_stats\<close> is false, every projected number is zero.
\<close>

theorem found_in_stats_iff_matched:
  "\<exists>results. project_all_players roster lk ss gs sd = Inr results \<and>
     length results = length roster \<and>
     (\<forall>i<length roster.
        (found_in_stats (results ! i) = False \<longleftrightarrow> \<not> matched_in_stats (roster ! i) lk ss gs) \<and>
        (found_in_stats (results ! i) = False \<longrightarrow> all_zero (results ! i)))"
proof -
  obtain rs where rs: "project_all_players roster lk ss gs sd = Inr rs" "length rs = length roster"
    "\<forall>i<length roster. project_player lk ss gs sd (roster ! i) = Inr (rs ! i)"
    using project_all_players_each by blast
  have "(found_in_stats (rs ! i) = False \<longleftrightarrow> \<not> matched_in_stats (roster ! i) lk ss gs) \<and>
        (found_in_stats (rs ! i) = False \<longrightarrow> all_zero (rs ! i))"
    if "i < length roster" for i
    using project_player_fields [of lk ss gs sd "roster ! i" "rs ! i"] rs(3) that by blast
  with rs(1,2) show ?thesis by blast
qed

theorem found_in_stats_iff_matched_witness:
  "\<exists>results. project_all_players [skater_mcdavid, goalie_skinner]
       [(''Connor McDavid'', Some ''Connor McDavid''), (''Stuart Skinner'', None)]
       [(''Connor McDavid'', stats_mcdavid)] [(''Stuart Skinner'', stats_skinner)]
       example_schedule = Inr results \<and>
     length results = 2 \<and>
     matched_in_stats skater_mcdavid
       [(''Connor McDavid'', Some ''Connor McDavid''), (''Stuart Skinner'', None)]
       [(''Connor McDavid'', stats_mcdavid)] [(''Stuart Skinner'', stats_skinner)] \<and>
     found_in_stats (results ! 0) \<and>
     \<not> matched_in_stats goalie_skinner
       [(''Connor McDavid'', Some ''Connor McDavid''), (''Stuart Skinner'', None)]
       [(''Connor McDavid'', stats_mcdavid)] [(''Stuart Skinner'', stats_skinner)] \<and>
     found_in_stats (results ! 1) = False \<and> all_zero (results ! 1)"
proof -
  let ?lk = "[(''Connor McDavid'', Some ''Connor McDavid''), (''Stuart Skinner'', None)]"
  let ?ss = "[(''Connor McDavid'', stats_mcdavid)]"
  let ?gs = "[(''Stuart Skinner'', stats_skinner)]"
  obtain results where
    r: "project_all_players [skater_mcdavid, goalie_skinner] ?lk ?ss ?gs example_schedule
          = Inr results"
       "length results = length [skater_mcdavid, goalie_skinner]"
    and each: "\<forall>i<length [skater_mcdavid, goalie_skinner].
        (found_in_stats (results ! i) = False \<longleftrightarrow>
           \<not> matched_in_stats ([skater_mcdavid, goalie_skinner] ! i) ?lk ?ss ?gs) \<and>
        (found_in_stats (results ! i) = False \<longrightarrow> all_zero (results ! i))"
    using found_in_stats_iff_matched [of "[skater_mcdavid, goalie_skinner]" ?lk ?ss ?gs
        example_schedule]
    by blast
  have m0: "matched_in_stats skater_mcdavid ?lk ?ss ?gs"
    by (simp add: matched_in_stats_def dict_get_def skater_mcdavid_def)
  have m1: "\<not> matched_in_stats goalie_skinner ?lk ?ss ?gs"
    by (simp add: matched_in_stats_def dict_get_def goalie_skinner_def)
  from each [rule_format, of 0] m0 have f0: "found_in_stats (results ! 0)" by simp
  from each [rule_format, of 1] m1
  have f1: "found_in_stats (results ! 1) = False \<and> all_zero (results ! 1)" by simp
  from r m0 m1 f0 f1 show ?thesis by simp
qed

section \<open>Standings\<close>

lemma dict_get_update:
  "dict_get (AList.update k v d) k' dflt = (if k' = k then v else dict_get d k' dflt)"
  by (simp add: dict_get_def update_conv')


















section \<open>The player lookup\<close>

lemma match_player_keeps:
  assumes "map_of lk n = Some v"
  shows "map_of (match_player ex ss gs lk p) n = Some v"
  using assms by (auto simp: match_player_def Let_def update_conv')

lemma match_player_other:
  assumes "name p \<noteq> n"
  shows "map_of (match_player ex ss gs lk p) n = map_of lk n"
  using assms by (auto simp: match_player_def Let_def update_conv')

lemma match_player_exact:
  assumes "map_of lk (name p) = None" and "in_pool p ss gs"
  shows "map_of (match_player ex ss gs lk p) (name p) = Some (Some (name p))"
  using assms by (simp add: match_player_def Let_def update_conv')

lemma foldl_match_player_keeps:
  assumes "map_of lk n = Some v"
  shows "map_of (foldl (match_player ex ss gs) lk ps) n = Some v"
  using assms
proof (induction ps arbitrary: lk)
  case Nil
  then show ?case by simp
next
  case (Cons p ps)
  from Cons.prems have "map_of (match_player ex ss gs lk p) n = Some v"
    by (rule match_player_keeps)
  then show ?case using Cons.IH by simp
qed

lemma foldl_match_player_first:
  assumes "map_of lk n = None"
    and "find (\<lambda>q. name q = n) ps = Some first"
    and "in_pool first ss gs"
  shows "map_of (foldl (match_player ex ss gs) lk ps) n = Some (Some n)"
  using assms
proof (induction ps arbitrary: lk)
  case Nil
  then show ?case by simp
next
  case (Cons p ps)
  show ?case
  proof (cases "name p = n")
    case True
    with Cons.prems have "first = p" by simp
    with Cons.prems True have "map_of (match_player ex ss gs lk p) n = Some (Some n)"
      using match_player_exact [of lk p ss gs ex] by simp
    then show ?thesis
      using foldl_match_player_keeps by simp
  next
    case False
    with Cons.prems have f: "find (\<lambda>q. name q = n) ps = Some first" by simp
    from False Cons.prems have "map_of (match_player ex ss gs lk p) n = None"
      by (simp add: match_player_other)
    from Cons.IH [OF this f Cons.prems(3)] show ?thesis by simp
  qed
qed

text \<open>
  C7, as the specification states it, fails: a name is matched once, for the first roster
  entry that bears it.  Below, the second roster entry is a goalie whose name is a key of the
  goalie collection, but the first entry of that name is a skater and the skater collection
  is empty, so the lookup holds "no match" for the name.
\<close>

theorem build_player_lookup_counterexample:
  "goalie_skinner \<in> set [skater_skinner, goalie_skinner] \<and>
   in_pool goalie_skinner [] [(''Stuart Skinner'', stats_skinner)] \<and>
   map_of (build_player_lookup no_candidate [skater_skinner, goalie_skinner] []
             [(''Stuart Skinner'', stats_skinner)]) (name goalie_skinner) = Some None"
  by code_simp

text \<open>
  C7, amended.  For every roster player: when the first roster entry that bears the player's
  name (the player itself if no earlier entry has the same name) has that name as a key of
  the statistics collection for its position (the goalie collection for position \<open>G\<close>, the
  skater collection otherwise), \<^const>\<open>build_player_lookup\<close> records the exact match
  \<open>lookup[name] = name\<close>, whatever the fuzzy matcher would propose.
\<close>

theorem build_player_lookup_exact:
  assumes "player \<in> set fchl_roster"
    and "find (\<lambda>q. name q = name player) fchl_roster = Some first"
    and "in_pool first skater_stats goalie_stats"
  shows "map_of (build_player_lookup extractOne fchl_roster skater_stats goalie_stats)
           (name player) = Some (Some (name player))"
  using foldl_match_player_first [of "[]" "name player" fchl_roster first skater_stats
      goalie_stats extractOne] assms(2,3)
  by (simp add: build_player_lookup_def)

theorem build_player_lookup_exact_witness:
  "goalie_skinner \<in> set [skater_mcdavid, goalie_skinner] \<and>
   find (\<lambda>q. name q = name goalie_skinner) [skater_mcdavid, goalie_skinner] = Some goalie_skinner \<and>
   in_pool goalie_skinner [(''Connor McDavid'', stats_mcdavid)] [(''Stuart Skinner'', stats_skinner)] \<and>
   map_of (build_player_lookup no_candidate [skater_mcdavid, goalie_skinner]
             [(''Connor McDavid'', stats_mcdavid)] [(''Stuart Skinner'', stats_skinner)])
     (name goalie_skinner) = Some (Some (name goalie_skinner))"
proof -
  have h1: "goalie_skinner \<in> set [skater_mcdavid, goalie_skinner]"
    by simp
  have h2: "find (\<lambda>q. name q = name goalie_skinner) [skater_mcdavid, goalie_skinner]
              = Some goalie_skinner"
    by (simp add: goalie_skinner_def skater_mcdavid_def)
  have h3: "in_pool goalie_skinner [(''Connor McDavid'', stats_mcdavid)]
              [(''Stuart Skinner'', stats_skinner)]"
    by (simp add: in_pool_def goalie_skinner_def)
  from h1 h2 h3 build_player_lookup_exact [OF h1 h2 h3, of no_candidate]
  show ?thesis by simp
qed

section \<open>The schedule counts\<close>

lemma values_sum_update:
  "dict_values_sum (AList.update k v d) = dict_values_sum d - dict_get d k 0 + v"
  by (induction d) (auto simp: dict_values_sum_def dict_get_def)

lemma count_game_sum:
  "dict_values_sum (count_game abbr d) = dict_values_sum d + (if truthy abbr then 1 else 0)"
  by (cases abbr) (simp_all add: count_game_def values_sum_update truthy_def)

lemma process_row_short:
  "length row < 8 \<Longrightarrow> process_row st row = st"
  by (simp add: process_row_def)

lemma process_row_scheduled:
  assumes "scheduled_status row"
  shows "process_row st row =
           st\<lparr>team_remaining := count_game (map_of NHL_TEAM_MAP (py_strip (row ! 5)))
                 (count_game (map_of NHL_TEAM_MAP (py_strip (row ! 3))) (team_remaining st))\<rparr>"
  using assms by (simp add: process_row_def scheduled_status_def Let_def)

lemma process_row_completed:
  assumes "completed_status row"
  shows "team_completed (process_row st row) =
           count_game (map_of NHL_TEAM_MAP (py_strip (row ! 5)))
             (count_game (map_of NHL_TEAM_MAP (py_strip (row ! 3))) (team_completed st)) \<and>
         team_remaining (process_row st row) = team_remaining st"
  using assms
  by (simp add: process_row_def completed_status_def Let_def split: option.splits)

lemma row_status_cases:
  "length row < 8 \<or> scheduled_status row \<or> completed_status row"
  by (auto simp: scheduled_status_def completed_status_def)

lemma process_row_completed_sum:
  "dict_values_sum (team_completed (process_row st row)) =
     dict_values_sum (team_completed st)
       + 2 * int (completed_both [row]) + int (completed_one [row])"
proof -
  consider "length row < 8" | "scheduled_status row" | "completed_status row"
    using row_status_cases by blast
  then show ?thesis
  proof cases
    case 1
    then show ?thesis
      by (simp add: process_row_short completed_both_def completed_one_def completed_status_def)
  next
    case 2
    then show ?thesis
      by (simp add: process_row_scheduled completed_both_def completed_one_def
          completed_status_def scheduled_status_def)
  next
    case 3
    then show ?thesis
      by (auto simp: process_row_completed count_game_sum completed_both_def completed_one_def
          both_recognized_def one_recognized_def recognized_def)
  qed
qed

lemma process_row_remaining_sum:
  "dict_values_sum (team_remaining (process_row st row)) =
     dict_values_sum (team_remaining st)
       + 2 * int (scheduled_both [row]) + int (scheduled_one [row])"
proof -
  consider "length row < 8" | "scheduled_status row" | "completed_status row"
    using row_status_cases by blast
  then show ?thesis
  proof cases
    case 1
    then show ?thesis
      by (simp add: process_row_short scheduled_both_def scheduled_one_def scheduled_status_def)
  next
    case 2
    then show ?thesis
      by (auto simp: process_row_scheduled count_game_sum scheduled_both_def scheduled_one_def
          both_recognized_def one_recognized_def recognized_def)
  next
    case 3
    then show ?thesis
      by (simp add: process_row_completed scheduled_both_def scheduled_one_def
          completed_status_def scheduled_status_def)
  qed
qed

lemma count_rows_Cons:
  "completed_both (r # rs) = completed_both [r] + completed_both rs"
  "completed_one (r # rs) = completed_one [r] + completed_one rs"
  "scheduled_both (r # rs) = scheduled_both [r] + scheduled_both rs"
  "scheduled_one (r # rs) = scheduled_one [r] + scheduled_one rs"
  by (simp_all add: completed_both_def completed_one_def scheduled_both_def scheduled_one_def)

lemma foldl_process_row_sums:
  "dict_values_sum (team_completed (foldl process_row st rows)) =
     dict_values_sum (team_completed st) + 2 * int (completed_both rows) + int (completed_one rows) \<and>
   dict_values_sum (team_remaining (foldl process_row st rows)) =
     dict_values_sum (team_remaining st) + 2 * int (scheduled_both rows) + int (scheduled_one rows)"
proof (induction rows arbitrary: st)
  case Nil
  then show ?case
    by (simp add: completed_both_def completed_one_def scheduled_both_def scheduled_one_def)
next
  case (Cons r rs)
  show ?case
    using Cons.IH [of "process_row st r"]
      process_row_completed_sum [of st r] process_row_remaining_sum [of st r]
      count_rows_Cons [of r rs]
    by simp
qed

text \<open>
  C5, as the specification states it, fails: a side is counted whenever its own team name is
  in the table, whether or not the other side's is.  The completed game below has one
  recognized side; no row has two, yet the completed counts sum to 1.
\<close>

theorem load_schedule_counts_counterexample:
  "load_schedule [header_row, row_one_sided] =
     Inr \<lparr>team_completed = [(''BOS'', 1)], team_remaining = [], goalie_schedule_stats = []\<rparr> \<and>
   dict_values_sum [(''BOS'', 1)] = 1 \<and>
   2 * int (completed_both [row_one_sided]) = 0"
  by code_simp

text \<open>
  C5, amended.  For every schedule with a header row, after \<^const>\<open>load_schedule\<close> the
  completed counts of all teams sum to twice the number of completed-status rows with a
  recognized team on both sides plus the number of completed-status rows with a recognized
  team on exactly one side, and the remaining counts sum to twice the number of
  not-yet-played rows with a recognized team on both sides plus the number of such rows with
  a recognized team on exactly one side.
\<close>

theorem load_schedule_counts:
  "\<exists>sd. load_schedule (header # rows) = Inr sd \<and>
     dict_values_sum (team_completed sd) = 2 * int (completed_both rows) + int (completed_one rows) \<and>
     dict_values_sum (team_remaining sd) = 2 * int (scheduled_both rows) + int (scheduled_one rows)"
  using foldl_process_row_sums [of no_games rows]
  by (simp add: no_games_def dict_values_sum_def)

theorem load_schedule_counts_witness:
  "\<exists>sd. load_schedule [header_row, row_played, row_one_sided, row_to_play] = Inr sd \<and>
     dict_values_sum (team_completed sd) = 3 \<and> dict_values_sum (team_remaining sd) = 2"
proof -
  have "completed_both [row_played, row_one_sided, row_to_play] = 1"
    "completed_one [row_played, row_one_sided, row_to_play] = 1"
    "scheduled_both [row_played, row_one_sided, row_to_play] = 1"
    "scheduled_one [row_played, row_one_sided, row_to_play] = 0"
    by code_simp+
  then show ?thesis
    using load_schedule_counts [of header_row "[row_played, row_one_sided, row_to_play]"]
    by simp
qed

section \<open>The wins of a completed game\<close>

lemma wins_in_goalie_entry:
  "wins_in (goalie_entry n f gs) g =
     (if g = n then wins (f (dict_get gs n new_tally)) else wins_in gs g)"
  by (simp add: wins_in_def goalie_entry_def dict_get_update)

lemma wins_in_add_start: "wins_in (goalie_entry n add_start gs) g = wins_in gs g"
  by (simp add: wins_in_goalie_entry add_start_def) (simp add: wins_in_def)

lemma wins_in_add_shutout: "wins_in (goalie_entry n add_shutout gs) g = wins_in gs g"
  by (simp add: wins_in_goalie_entry add_shutout_def) (simp add: wins_in_def)

lemma wins_in_add_win:
  "wins_in (goalie_entry n add_win gs) g = wins_in gs g + (if g = n then 1 else 0)"
  by (simp add: wins_in_goalie_entry add_win_def) (simp add: wins_in_def)

lemma wins_in_tally_game:
  "wins_in (tally_game vg hg v h gs) g =
     wins_in gs g +
       (if vg \<noteq> [] \<and> hg \<noteq> []
        then (if v > h then (if g = vg then 1 else 0) else (if g = hg then 1 else 0))
        else 0)"
  by (simp add: tally_game_def Let_def wins_in_add_start wins_in_add_shutout wins_in_add_win)

lemma process_row_goalies:
  assumes "completed_status row"
    and "py_int (py_strip (row ! 4)) = Some v" and "py_int (py_strip (row ! 6)) = Some h"
  shows "goalie_schedule_stats (process_row st row) =
           tally_game (visitor_goalie_of row) (home_goalie_of row) v h (goalie_schedule_stats st)"
  using assms
  by (simp add: process_row_def completed_status_def Let_def visitor_goalie_of_def
      home_goalie_of_def)

lemma load_schedule_snoc:
  "load_schedule (header # rows @ [row]) = Inr (process_row (foldl process_row no_games rows) row)"
  by simp

lemma load_schedule_wins_both_named:
  assumes "completed_status row"
    and "py_int (py_strip (row ! 4)) = Some v_score"
    and "py_int (py_strip (row ! 6)) = Some h_score"
    and "visitor_goalie_of row \<noteq> []" and "home_goalie_of row \<noteq> []"
    and "v_score \<noteq> h_score"
    and "winner = (if v_score > h_score then visitor_goalie_of row else home_goalie_of row)"
  shows "\<exists>before after.
           load_schedule (header # rows) = Inr before \<and>
           load_schedule (header # rows @ [row]) = Inr after \<and>
           wins_of after winner = wins_of before winner + 1 \<and>
           (\<forall>g. g \<noteq> winner \<longrightarrow> wins_of after g = wins_of before g)"
proof -
  let ?before = "foldl process_row no_games rows"
  let ?after = "process_row ?before row"
  have w: "wins_of ?after g = wins_of ?before g + (if g = winner then 1 else 0)" for g
    using assms(4-7)
    by (simp add: wins_of_def process_row_goalies [OF assms(1-3)] wins_in_tally_game)
  have "load_schedule (header # rows) = Inr ?before"
    by simp
  moreover have "load_schedule (header # rows @ [row]) = Inr ?after"
    by (rule load_schedule_snoc)
  moreover have "wins_of ?after winner = wins_of ?before winner + 1"
    by (simp add: w)
  moreover have "\<forall>g. g \<noteq> winner \<longrightarrow> wins_of ?after g = wins_of ?before g"
    by (simp add: w)
  ultimately show ?thesis by blast
qed

text \<open>
  C1.  The program departs from the statement on a completed record whose losing side has
  no named starting goalie.  In both records below the visitors win (4 to 2, and 3 to 0),
  both scores parse and the visitors' starting goalie is named, but the home starting goalie
  is blank.  After the record the visitors' goalie has one start, and in the second game one
  shutout, but no win: starts and shutouts are tallied for each named goalie on its own,
  the win only when both starting goalies are named.
\<close>

theorem load_schedule_win_not_tallied:
  "completed_status row_home_unnamed \<and>
   py_int (py_strip (row_home_unnamed ! 4)) = Some 4 \<and>
   py_int (py_strip (row_home_unnamed ! 6)) = Some 2 \<and>
   visitor_goalie_of row_home_unnamed = ''Stuart Skinner'' \<and>
   home_goalie_of row_home_unnamed = '''' \<and>
   load_schedule [header_row] = Inr no_games \<and>
   wins_of no_games ''Stuart Skinner'' = 0 \<and>
   load_schedule [header_row, row_home_unnamed] =
     Inr \<lparr>team_completed = [(''EDM'', 1), (''CGY'', 1)], team_remaining = [],
          goalie_schedule_stats = [(''Stuart Skinner'', \<lparr>starts = 1, wins = 0, shutouts = 0\<rparr>)]\<rparr> \<and>
   wins_in [(''Stuart Skinner'', \<lparr>starts = 1, wins = 0, shutouts = 0\<rparr>)] ''Stuart Skinner'' = 0 \<and>
   completed_status row_home_unnamed_shutout \<and>
   py_int (py_strip (row_home_unnamed_shutout ! 4)) = Some 3 \<and>
   py_int (py_strip (row_home_unnamed_shutout ! 6)) = Some 0 \<and>
   visitor_goalie_of row_home_unnamed_shutout = ''Stuart Skinner'' \<and>
   home_goalie_of row_home_unnamed_shutout = '''' \<and>
   load_schedule [header_row, row_home_unnamed_shutout] =
     Inr \<lparr>team_completed = [(''EDM'', 1), (''CGY'', 1)], team_remaining = [],
          goalie_schedule_stats = [(''Stuart Skinner'', \<lparr>starts = 1, wins = 0, shutouts = 1\<rparr>)]\<rparr>"
  by code_simp

section \<open>The roster name parser\<close>

lemma split_from_spaces:
  "list_all is_space ws \<Longrightarrow> split_from cur ws = (if cur = [] then [] else [rev cur])"
  by (induction ws arbitrary: cur) auto

lemma split_from_trailing:
  "list_all is_space ws \<Longrightarrow> split_from cur (t @ ws) = split_from cur t"
  by (induction t arbitrary: cur) (auto simp: split_from_spaces)

lemma split_from_leading:
  "split_from [] (dropWhile is_space s) = split_from [] s"
  by (induction s) auto

lemma py_split_strip: "py_split (py_strip s) = py_split s"
proof -
  let ?t = "rev (dropWhile is_space (rev (dropWhile is_space s)))"
  let ?ws = "rev (takeWhile is_space (rev (dropWhile is_space s)))"
  have "list_all is_space ?ws"
    by (simp add: list_all_iff) (metis set_takeWhileD)
  then have "split_from [] (?t @ ?ws) = split_from [] ?t"
    by (rule split_from_trailing)
  moreover have "?t @ ?ws = dropWhile is_space s"
    by (metis rev_append rev_rev_ident takeWhile_dropWhile_id)
  ultimately show ?thesis
    by (simp add: py_split_def py_strip_def split_from_leading)
qed

lemma split_from_tokens:
  "tok \<in> set (split_from cur s) \<Longrightarrow> tok \<noteq> []"
  by (induction s arbitrary: cur) (auto split: if_splits)

lemma upper_not_lower: "is_upper c \<Longrightarrow> \<not> is_lower c"
  by (auto simp: is_upper_def is_lower_def)

lemma single_upper_letter:
  "(length tok = 1 \<and> isalpha tok \<and> isupper tok) = (length tok = 1 \<and> list_all is_upper tok)"
proof (cases tok)
  case Nil
  then show ?thesis by simp
next
  case (Cons c cs)
  then show ?thesis
    using upper_not_lower [of c] by (auto simp: isalpha_def isupper_def)
qed

lemma suffix_test:
  assumes "tok \<noteq> []"
  shows "(isdigit tok \<or> (length tok = 1 \<and> isalpha tok \<and> isupper tok)) = is_suffix_token tok"
  using assms single_upper_letter [of tok] by (auto simp: is_suffix_token_def isdigit_def)

lemma name_slices:
  assumes "\<not> length parts < 2"
  shows "drop 1 (take (length parts - 1) parts) = butlast (tl parts)"
    and "drop 1 parts = tl parts"
    and "(length parts > 2) = (butlast (tl parts) \<noteq> [])"
proof -
  obtain p q qs where parts: "parts = p # q # qs"
    using assms by (cases parts; cases "tl parts") auto
  show "drop 1 (take (length parts - 1) parts) = butlast (tl parts)"
    by (simp add: parts butlast_conv_take)
  show "drop 1 parts = tl parts"
    by (simp add: parts)
  show "(length parts > 2) = (butlast (tl parts) \<noteq> [])"
    by (cases qs) (simp_all add: parts)
qed

lemma parse_player_name_refines:
  "parse_player_name line = spec_parse_player_name line"
proof (cases "length (py_split line) < 2")
  case True
  then show ?thesis
    by (simp add: parse_player_name_def spec_parse_player_name_def py_split_strip)
next
  case False
  then have ne: "py_split line \<noteq> []" by auto
  then have "last (py_split line) \<in> set (py_split line)" by simp
  then have "last (py_split line) \<noteq> []"
    unfolding py_split_def by (rule split_from_tokens)
  note suffix_test [OF this]
  with False name_slices [OF False] show ?thesis
    by (simp add: parse_player_name_def spec_parse_player_name_def py_split_strip Let_def)
qed

lemma parse_player_name_examples:
  "parse_player_name ''F Connor McDavid 97'' = (''F'', ''Connor McDavid'')"
  "parse_player_name ''D A'' = (''D'', ''A'')"
  by code_simp+

text \<open>
  C6.  \<^const>\<open>parse_player_name\<close> computes the rule of the specification
  (\<^const>\<open>spec_parse_player_name\<close>): the first whitespace-delimited token is the position and
  the other tokens, joined by single spaces, are the name, without the last token if and
  only if that token is entirely numeric or a single uppercase letter and at least one name
  token remains without it; a string of fewer than two tokens gives the empty position and
  the whole string as the name.  \<open>F Connor McDavid 97\<close> gives \<open>(F, Connor McDavid)\<close> and \<open>D A\<close>
  gives \<open>(D, A)\<close>.
\<close>

theorem parse_player_name_spec:
  "parse_player_name line = spec_parse_player_name line \<and>
   parse_player_name ''F Connor McDavid 97'' = (''F'', ''Connor McDavid'') \<and>
   parse_player_name ''D A'' = (''D'', ''A'')"
  using parse_player_name_refines parse_player_name_examples by simp

theorem parse_player_name_spec_witness:
  "spec_parse_player_name ''F Artemi Panarin 3'' = (''F'', ''Artemi Panarin'') \<and>
   parse_player_name ''F Artemi Panarin 3'' = (''F'', ''Artemi Panarin'') \<and>
   spec_parse_player_name ''  Panarin '' = ('''', ''  Panarin '') \<and>
   parse_player_name ''  Panarin '' = ('''', ''  Panarin '')"
proof -
  have "spec_parse_player_name ''F Artemi Panarin 3'' = (''F'', ''Artemi Panarin'')"
    "spec_parse_player_name ''  Panarin '' = ('''', ''  Panarin '')"
    by code_simp+
  then show ?thesis
    using parse_player_name_spec [of "''F Artemi Panarin 3''"]
      parse_player_name_spec [of "''  Panarin ''"]
    by simp
qed

end
